theory Spec2Isabelle
  imports Complex_Main "HOL-Library.Sublist"
begin

section \<open>Data model\<close>

text \<open>
  The Halden weather server (\<^verbatim>\<open>src/unnamed/part_000\<close>, and its subset
  \<^verbatim>\<open>src/yr-weather/src/index.js\<close>) reads JSON and formats text.

  JavaScript numbers that come out of a JSON body are finite doubles. They are modelled
  as rationals: every finite double is a rational, and the comparisons of the code
  (\<^verbatim>\<open>> 0\<close>, \<^verbatim>\<open>> 15\<close>, \<^verbatim>\<open>< 5\<close>, \<^verbatim>\<open>> 10\<close>) are exact on doubles. A field of an
  entry holds the exact value of its double. The one arithmetic operation of the code, the
  \<^verbatim>\<open>+=\<close> of the precipitation accumulator, is the addition of doubles
  (\<^verbatim>\<open>double_add\<close> below), which rounds.

  Strings are byte lists holding the UTF-8 encoding of the JavaScript string. The patterns
  searched by \<^verbatim>\<open>includes\<close> are ASCII, for which containment in the UTF-8 bytes and in the
  UTF-16 code units coincide.
\<close>

type_synonym num = rat

text \<open>
  The optional block \<^verbatim>\<open>data.next_1_hours\<close> of a timeseries entry. The code reads it only
  through the chains \<^verbatim>\<open>next1h?.summary?.symbol_code\<close> and
  \<^verbatim>\<open>next1h?.details?.precipitation_amount\<close>, so an absent \<^verbatim>\<open>summary\<close> (or
  \<^verbatim>\<open>details\<close>) and an absent leaf are the same value \<^verbatim>\<open>undefined\<close>: the two levels are
  folded into the optional leaf.
\<close>

record next1h =
  symbol_code :: "string option"
  precipitation_amount :: "num option"

text \<open>
  One entry of \<^verbatim>\<open>properties.timeseries\<close>. \<^verbatim>\<open>time\<close> is the instant that
  \<^verbatim>\<open>new Date(entry.time)\<close> holds, in milliseconds since the epoch (a time string that
  does not parse is outside the model); the four measurements are the fields of
  \<^verbatim>\<open>data.instant.details\<close>, which the upstream schema always provides.
\<close>

record entry =
  time :: int
  air_temperature :: num
  wind_speed :: num
  relative_humidity :: num
  air_pressure_at_sea_level :: num
  next_1_hours :: "next1h option"

text \<open>
  A parsed body of the forecast endpoint: either a forecast with its timeseries, or any
  JSON value \<^verbatim>\<open>data\<close> on which \<^verbatim>\<open>data.properties.timeseries.length\<close> throws
  (\<^verbatim>\<open>null\<close>, or a value without \<^verbatim>\<open>properties\<close> or without \<^verbatim>\<open>timeseries\<close>).
\<close>

datatype yr_json = NoTimeseries | Forecast "entry list"

datatype 'a body = MalformedJson | Json 'a

text \<open>What \<^verbatim>\<open>await fetch(...)\<close> does: it rejects, or resolves to a response with a status
  and a body.\<close>

datatype 'a fetch_outcome = NetworkError | Response nat "'a body"

datatype js_error = HttpError nat | NetworkFailure | SyntaxError | TypeError

record search_result =
  title :: string
  url :: string
  description :: string

text \<open>The body of the search endpoint; \<^verbatim>\<open>web_results\<close> is \<^verbatim>\<open>web?.results\<close>.\<close>

record brave_json =
  web_results :: "search_result list option"

record brave_request =
  req_url :: string
  req_params :: "(string \<times> string) list"
  req_headers :: "(string \<times> string) list"

text \<open>
  The conversions of the JavaScript runtime that the handlers call and that depend on the
  platform: \<^verbatim>\<open>Number::toString\<close> in a template literal, \<^verbatim>\<open>Date.prototype.getHours\<close>
  (local time zone) and \<^verbatim>\<open>toLocaleDateString("en-US", ...)\<close> of a day key.
\<close>

record platform =
  numToString :: "num \<Rightarrow> string"
  getHours :: "int \<Rightarrow> nat"
  toLocaleDateString :: "int \<Rightarrow> string"

section \<open>String helpers\<close>

definition newline :: string where
  "newline = [CHR 0x0A]"

definition degC :: string where
  "degC = [CHR 0xC2, CHR 0xB0, CHR ''C'']"

fun join :: "string \<Rightarrow> string list \<Rightarrow> string" where
  "join sep [] = []"
| "join sep [x] = x"
| "join sep (x # y # ys) = x @ sep @ join sep (y # ys)"

text \<open>\<^verbatim>\<open>s.includes(pat)\<close>: \<^verbatim>\<open>pat\<close> occurs in \<^verbatim>\<open>s\<close> as a contiguous substring.\<close>

definition str_includes :: "string \<Rightarrow> string \<Rightarrow> bool" where
  "str_includes s pat = sublist pat s"

text \<open>Decimal digits of a non-negative integer (\<^verbatim>\<open>toString\<close> of an integer count).\<close>

function dec :: "nat \<Rightarrow> string" where
  "dec n = (if n < 10 then [char_of (48 + n)] else dec (n div 10) @ [char_of (48 + n mod 10)])"
  by pat_completeness auto
termination
  by (relation "measure id") auto

declare dec.simps [simp del]

section \<open>Addition of doubles\<close>

text \<open>
  IEEE 754 binary64 addition of finite numbers, on the exact values. A double is
  \<^verbatim>\<open>m * 2^e\<close> with an integer \<^verbatim>\<open>m\<close> below \<^verbatim>\<open>2^53\<close> and \<^verbatim>\<open>e\<close> from -1074 on;
  \<^verbatim>\<open>round_double\<close> takes a rational to the nearest such number, a tie to the even
  \<^verbatim>\<open>m\<close>. Adding zero is exact; otherwise the exact sum is rounded. Sums beyond the
  range of doubles (\<^verbatim>\<open>Infinity\<close>) are outside the model.
\<close>

definition pow2 :: "int \<Rightarrow> rat" where
  "pow2 e = (if 0 \<le> e then 2 ^ nat e else 1 / 2 ^ nat (- e))"

function log2_up :: "rat \<Rightarrow> int" where
  "log2_up y = (if y < 2 then 0 else log2_up (y / 2) + 1)"
  by pat_completeness auto
termination
proof (relation "measure (\<lambda>y. nat \<lfloor>y\<rfloor>)")
  show "wf (measure (\<lambda>y. nat \<lfloor>y\<rfloor>))" by simp
next
  fix y :: rat
  assume "\<not> y < 2"
  then have "\<lfloor>y / 2\<rfloor> < \<lfloor>y\<rfloor>" and "0 < \<lfloor>y\<rfloor>"
    by linarith+
  then show "(y / 2, y) \<in> measure (\<lambda>y. nat \<lfloor>y\<rfloor>)" by simp
qed

function log2_down :: "rat \<Rightarrow> int" where
  "log2_down y = (if y \<le> 0 \<or> 1 \<le> y then 0 else log2_down (y * 2) - 1)"
  by pat_completeness auto
termination
proof (relation "measure (\<lambda>y. nat \<lceil>1 / y\<rceil>)")
  show "wf (measure (\<lambda>y. nat \<lceil>1 / y\<rceil>))" by simp
next
  fix y :: rat
  assume a: "\<not> (y \<le> 0 \<or> 1 \<le> y)"
  then have y: "0 < y" "y < 1" by auto
  define h where "h = 1 / (y * 2)"
  have h: "1 / 2 < h" using y by (simp add: h_def field_simps)
  have eq: "1 / y = 2 * h" using y by (simp add: h_def)
  have pos: "0 < \<lceil>2 * h\<rceil>"
    using h by (simp add: less_ceiling_iff)
  have "\<lceil>h\<rceil> < \<lceil>2 * h\<rceil>"
  proof (cases "h \<le> 1")
    case True
    then have "\<lceil>h\<rceil> \<le> 1" by (simp add: ceiling_le_iff)
    moreover from h have "1 < \<lceil>2 * h\<rceil>" by (simp add: less_ceiling_iff)
    ultimately show ?thesis by (rule le_less_trans)
  next
    case False
    have "of_int \<lceil>h\<rceil> < h + 1" by linarith
    with False have "of_int \<lceil>h\<rceil> < 2 * h" by simp
    then show ?thesis by (simp add: less_ceiling_iff)
  qed
  with pos have "\<lceil>h\<rceil> < \<lceil>2 * h\<rceil>" and "0 < \<lceil>2 * h\<rceil>" by simp_all
  then show "(y * 2, y) \<in> measure (\<lambda>y. nat \<lceil>1 / y\<rceil>)"
    by (simp add: eq h_def [symmetric])
qed

declare log2_up.simps [simp del] log2_down.simps [simp del]

text \<open>The integer \<^verbatim>\<open>k\<close> with \<^verbatim>\<open>2^k \<le> y < 2^(k+1)\<close>, for a positive \<^verbatim>\<open>y\<close>.\<close>

definition floor_log2 :: "rat \<Rightarrow> int" where
  "floor_log2 y = (if 1 \<le> y then log2_up y else log2_down y)"

definition round_half_even :: "rat \<Rightarrow> int" where
  "round_half_even q =
     (let f = \<lfloor>q\<rfloor>; r = q - of_int f
      in if r < 1 / 2 then f else if 1 / 2 < r then f + 1 else if even f then f else f + 1)"

definition round_double :: "rat \<Rightarrow> rat" where
  "round_double x =
     (if x = 0 then 0
      else let e = max (- 1074) (floor_log2 \<bar>x\<bar> - 52)
           in sgn x * of_int (round_half_even (\<bar>x\<bar> / pow2 e)) * pow2 e)"

definition double_add :: "num \<Rightarrow> num \<Rightarrow> num" where
  "double_add x y = (if x = 0 then y else if y = 0 then x else round_double (x + y))"

section \<open>Constants of the module\<close>

definition USER_AGENT :: string where
  "USER_AGENT = ''weather-mcp-app/1.0''"

definition BRAVE_SEARCH_URL :: string where
  "BRAVE_SEARCH_URL = ''https://api.search.brave.com/res/v1/web/search''"

definition glyph_default :: string where
  "glyph_default = [CHR 0xF0, CHR 0x9F, CHR 0x8C, CHR 0xA4, CHR 0xEF, CHR 0xB8, CHR 0x8F]"

definition glyph_rain :: string where
  "glyph_rain = [CHR 0xF0, CHR 0x9F, CHR 0x8C, CHR 0xA7, CHR 0xEF, CHR 0xB8, CHR 0x8F]"

definition glyph_snow :: string where
  "glyph_snow = [CHR 0xE2, CHR 0x9D, CHR 0x84, CHR 0xEF, CHR 0xB8, CHR 0x8F]"

definition glyph_thunder :: string where
  "glyph_thunder = [CHR 0xE2, CHR 0x9B, CHR 0x88, CHR 0xEF, CHR 0xB8, CHR 0x8F]"

definition glyph_fog :: string where
  "glyph_fog = [CHR 0xF0, CHR 0x9F, CHR 0x8C, CHR 0xAB, CHR 0xEF, CHR 0xB8, CHR 0x8F]"

definition glyph_cloudy :: string where
  "glyph_cloudy = [CHR 0xE2, CHR 0x98, CHR 0x81, CHR 0xEF, CHR 0xB8, CHR 0x8F]"

definition glyph_fair :: string where
  "glyph_fair = [CHR 0xF0, CHR 0x9F, CHR 0x8C, CHR 0xA4, CHR 0xEF, CHR 0xB8, CHR 0x8F]"

definition glyph_clear :: string where
  "glyph_clear = [CHR 0xE2, CHR 0x98, CHR 0x80, CHR 0xEF, CHR 0xB8, CHR 0x8F]"

definition current_weather_failure :: string where
  "current_weather_failure = [CHR 0xE2, CHR 0x9D, CHR 0x8C] @
     '' Unable to fetch current weather data from YR API. Please try again later.''"

definition forecast_failure :: string where
  "forecast_failure = ''Failed to get forecast data.''"

definition activity_failure :: string where
  "activity_failure = [CHR 0xE2, CHR 0x9D, CHR 0x8C] @
     '' Unable to get weather data for activity suggestions.''"

definition hourly_header :: string where
  "hourly_header = [CHR 0xF0, CHR 0x9F, CHR 0x95, CHR 0x90] @
     '' Hourly forecast for Halden (next 12 hours):''"

definition threeday_header :: string where
  "threeday_header = [CHR 0xF0, CHR 0x9F, CHR 0x93, CHR 0x85] @ '' 3-day forecast for Halden:''"

definition indoor_msg :: string where
  "indoor_msg = [CHR 0xE2, CHR 0x98, CHR 0x94] @ '' Indoor activities recommended''"

definition outdoor_msg :: string where
  "outdoor_msg = [CHR 0xF0, CHR 0x9F, CHR 0x8C, CHR 0x9E] @
     '' Great weather for outdoor activities''"

definition cold_msg :: string where
  "cold_msg = [CHR 0xF0, CHR 0x9F, CHR 0xA7, CHR 0x8A] @
     '' Cold weather - indoor or winter activities''"

definition mild_msg :: string where
  "mild_msg = [CHR 0xF0, CHR 0x9F, CHR 0x9A, CHR 0xB6] @
     '' Mild weather - good for walking or light outdoor activities''"

definition windy_msg :: string where
  "windy_msg = [CHR 0xF0, CHR 0x9F, CHR 0x92, CHR 0xA8] @
     '' Windy conditions - sheltered activities preferred''"

definition places_header :: string where
  "places_header = newline @ newline @ [CHR 0xF0, CHR 0x9F, CHR 0x8E, CHR 0xAF] @
     '' Suggested places:'' @ newline"

definition search_hint :: string where
  "search_hint = newline @ newline @ [CHR 0xF0, CHR 0x9F, CHR 0x92, CHR 0xA1] @
     '' Enable search with Brave API key for specific venue suggestions''"

definition activity_target :: string where
  "activity_target = [CHR 0xF0, CHR 0x9F, CHR 0x8E, CHR 0xAF]"

section \<open>The clients\<close>

text \<open>\<^verbatim>\<open>response.ok\<close>: the status is in the range 200 to 299.\<close>

definition ok :: "nat \<Rightarrow> bool" where
  "ok status = (200 \<le> status \<and> status \<le> 299)"

text \<open>
  The \<^verbatim>\<open>try\<close> block of \<^verbatim>\<open>fetchHaldenForecast\<close>: \<^verbatim>\<open>fetch\<close> may reject, a response that is
  not ok makes the code throw, \<^verbatim>\<open>response.json()\<close> rejects on a malformed body, and the
  log line reads \<^verbatim>\<open>data.properties.timeseries.length\<close>, which throws a TypeError when the
  path is missing. Writing to the diagnostic channel is not modelled.
\<close>

definition fetch_try :: "yr_json fetch_outcome \<Rightarrow> js_error + yr_json" where
  "fetch_try r =
     (case r of
        NetworkError \<Rightarrow> Inl NetworkFailure
      | Response status b \<Rightarrow>
          if \<not> ok status then Inl (HttpError status)
          else (case b of
                  MalformedJson \<Rightarrow> Inl SyntaxError
                | Json data \<Rightarrow>
                    (case data of
                       NoTimeseries \<Rightarrow> Inl TypeError
                     | Forecast ts \<Rightarrow> Inr data)))"

text \<open>The \<^verbatim>\<open>catch\<close> clause turns every error of the block into \<^verbatim>\<open>null\<close>.\<close>

definition fetchHaldenForecast :: "yr_json fetch_outcome \<Rightarrow> js_error + yr_json option" where
  "fetchHaldenForecast r =
     (case fetch_try r of
        Inl err \<Rightarrow> Inr None
      | Inr data \<Rightarrow> Inr (Some data))"

text \<open>\<^verbatim>\<open>BRAVE_API_KEY\<close> is truthy: the variable is set and not the empty string.\<close>

definition key_configured :: "string option \<Rightarrow> bool" where
  "key_configured key = (case key of None \<Rightarrow> False | Some k \<Rightarrow> k \<noteq> [])"

text \<open>The request that \<^verbatim>\<open>braveSearch\<close> builds: the URL with its three query parameters
  and the three headers.\<close>

definition search_request :: "string \<Rightarrow> string \<Rightarrow> nat \<Rightarrow> brave_request" where
  "search_request k query count =
     \<lparr>req_url = BRAVE_SEARCH_URL,
      req_params = [(''q'', query), (''count'', dec count), (''country'', ''NO'')],
      req_headers = [(''Accept'', ''application/json''),
                     (''X-Subscription-Token'', k),
                     (''User-Agent'', USER_AGENT)]\<rparr>"

text \<open>
  \<^verbatim>\<open>braveSearch(query, count)\<close>. The network is a function from the request to the outcome
  of the fetch; the second component of the result lists the requests that were issued.
\<close>

definition braveSearch ::
  "string option \<Rightarrow> (brave_request \<Rightarrow> brave_json fetch_outcome) \<Rightarrow> string \<Rightarrow> nat
     \<Rightarrow> brave_json option \<times> brave_request list" where
  "braveSearch key net query count =
     (case key of
        None \<Rightarrow> (None, [])
      | Some k \<Rightarrow>
          if k = [] then (None, [])
          else
            let req = search_request k query count
            in (case net req of
                  NetworkError \<Rightarrow> (None, [req])
                | Response status b \<Rightarrow>
                    if \<not> ok status then (None, [req])
                    else (case b of
                            MalformedJson \<Rightarrow> (None, [req])
                          | Json results \<Rightarrow> (Some results, [req]))))"

section \<open>The icon mapper\<close>

definition formatWeatherIcon :: "string option \<Rightarrow> string" where
  "formatWeatherIcon symbolCode =
     (case symbolCode of
        None \<Rightarrow> glyph_default
      | Some code \<Rightarrow>
          if code = [] then glyph_default
          else if str_includes code ''rain'' then glyph_rain
          else if str_includes code ''snow'' then glyph_snow
          else if str_includes code ''thunder'' then glyph_thunder
          else if str_includes code ''fog'' then glyph_fog
          else if str_includes code ''cloudy'' then glyph_cloudy
          else if str_includes code ''fair'' then glyph_fair
          else if str_includes code ''clear'' then glyph_clear
          else glyph_default)"

text \<open>
  The mapper in the words of the specification: a table in priority order, the first
  entry whose substring occurs in the code wins, and the default glyph otherwise.
\<close>

definition icon_table :: "(string \<times> string) list" where
  "icon_table =
     [(''rain'', glyph_rain), (''snow'', glyph_snow), (''thunder'', glyph_thunder),
      (''fog'', glyph_fog), (''cloudy'', glyph_cloudy), (''fair'', glyph_fair),
      (''clear'', glyph_clear)]"

definition icon_first_match :: "string option \<Rightarrow> string" where
  "icon_first_match symbolCode =
     (case symbolCode of
        None \<Rightarrow> glyph_default
      | Some code \<Rightarrow>
          (case find (\<lambda>(pat, glyph). str_includes code pat) icon_table of
             None \<Rightarrow> glyph_default
           | Some (pat, glyph) \<Rightarrow> glyph))"

section \<open>Optional chaining\<close>

text \<open>\<^verbatim>\<open>next1h?.summary?.symbol_code\<close> and \<^verbatim>\<open>next1h?.details?.precipitation_amount\<close>.\<close>

definition symbol_of :: "next1h option \<Rightarrow> string option" where
  "symbol_of next1h = (case next1h of None \<Rightarrow> None | Some h \<Rightarrow> symbol_code h)"

definition precip_of :: "next1h option \<Rightarrow> num option" where
  "precip_of next1h = (case next1h of None \<Rightarrow> None | Some h \<Rightarrow> precipitation_amount h)"

section \<open>Tool 1: current weather\<close>

definition get_current_weather :: "platform \<Rightarrow> yr_json fetch_outcome \<Rightarrow> js_error + string" where
  "get_current_weather p r =
     (case fetchHaldenForecast r of
        Inl err \<Rightarrow> Inl err
      | Inr None \<Rightarrow> Inr current_weather_failure
      | Inr (Some data) \<Rightarrow>
          (case data of
             NoTimeseries \<Rightarrow> Inl TypeError
           | Forecast timeseries \<Rightarrow>
               (case timeseries of
                  [] \<Rightarrow> Inl TypeError
                | current # rest \<Rightarrow>
                    let next1h = next_1_hours current;
                        icon = formatWeatherIcon (symbol_of next1h)
                    in Inr (join newline
                         [icon @ '' Current weather in Halden (via YR.no):'',
                          ''Temperature: '' @ numToString p (air_temperature current) @ degC,
                          ''Wind: '' @ numToString p (wind_speed current) @ '' m/s'',
                          ''Humidity: '' @ numToString p (relative_humidity current) @ ''%'',
                          ''Pressure: '' @ numToString p (air_pressure_at_sea_level current)
                             @ '' hPa'']))))"

section \<open>Tool 2: hourly forecast\<close>

text \<open>The callback of \<^verbatim>\<open>map\<close>; \<^verbatim>\<open>precip\<close> is \<^verbatim>\<open>precipitation_amount || 0\<close>.\<close>

definition hourly_line :: "platform \<Rightarrow> entry \<Rightarrow> string" where
  "hourly_line p e =
     (let hour = getHours p (time e);
          next1h = next_1_hours e;
          icon = formatWeatherIcon (symbol_of next1h);
          temp = air_temperature e;
          wind = wind_speed e;
          precip = (case precip_of next1h of None \<Rightarrow> 0 | Some a \<Rightarrow> if a = 0 then 0 else a)
      in dec hour @ '':00 '' @ icon @ '' '' @ numToString p temp @ degC @ '', ''
           @ numToString p wind @ '' m/s''
           @ (if precip > 0 then '', '' @ numToString p precip @ ''mm rain'' else []))"

definition get_hourly_forecast :: "platform \<Rightarrow> yr_json fetch_outcome \<Rightarrow> js_error + string" where
  "get_hourly_forecast p r =
     (case fetchHaldenForecast r of
        Inl err \<Rightarrow> Inl err
      | Inr None \<Rightarrow> Inr forecast_failure
      | Inr (Some data) \<Rightarrow>
          (case data of
             NoTimeseries \<Rightarrow> Inl TypeError
           | Forecast timeseries \<Rightarrow>
               let hourly = map (hourly_line p) (take 12 timeseries)
               in Inr (join newline ([hourly_header, []] @ hourly))))"

section \<open>Tool 3: three-day forecast\<close>

text \<open>
  \<^verbatim>\<open>dailyData\<close> is an object keyed by the UTC date string \<^verbatim>\<open>YYYY-MM-DD\<close> of an entry.
  Such keys are not array indices, so \<^verbatim>\<open>Object.entries\<close> lists them in insertion order:
  the object is an association list, a new key goes to the end. The key is modelled by the
  number of the UTC day, which determines the date string and is determined by it.
\<close>

record day_acc =
  temps :: "num list"
  conditions :: "string list"
  precipitation :: num

definition dayKey :: "entry \<Rightarrow> int" where
  "dayKey e = time e div 86400000"

fun update_day :: "int \<Rightarrow> (day_acc \<Rightarrow> day_acc) \<Rightarrow> (int \<times> day_acc) list \<Rightarrow> (int \<times> day_acc) list" where
  "update_day k f [] = []"
| "update_day k f ((k', a) # rest) =
     (if k' = k then (k', f a) # rest else (k', a) # update_day k f rest)"

text \<open>The callback of \<^verbatim>\<open>forEach\<close>: one entry is added to its day.\<close>

definition group_entry :: "(int \<times> day_acc) list \<Rightarrow> entry \<Rightarrow> (int \<times> day_acc) list" where
  "group_entry dailyData e =
     (let k = dayKey e;
          d1 = (if map_of dailyData k = None
                then dailyData @ [(k, \<lparr>temps = [], conditions = [], precipitation = 0\<rparr>)]
                else dailyData);
          d2 = update_day k (\<lambda>a. a\<lparr>temps := temps a @ [air_temperature e]\<rparr>) d1;
          d3 = (case symbol_of (next_1_hours e) of
                  None \<Rightarrow> d2
                | Some code \<Rightarrow>
                    if code = [] then d2
                    else update_day k (\<lambda>a. a\<lparr>conditions := conditions a @ [code]\<rparr>) d2);
          d4 = (case precip_of (next_1_hours e) of
                  None \<Rightarrow> d3
                | Some amount \<Rightarrow>
                    if amount = 0 then d3
                    else update_day k
                           (\<lambda>a. a\<lparr>precipitation := double_add (precipitation a) amount\<rparr>) d3)
      in d4)"

definition groupByDay :: "entry list \<Rightarrow> (int \<times> day_acc) list" where
  "groupByDay timeseries = foldl group_entry [] timeseries"

text \<open>\<^verbatim>\<open>Math.min(...xs)\<close> and \<^verbatim>\<open>Math.max(...xs)\<close>; \<^verbatim>\<open>None\<close> is the infinity that
  JavaScript returns for no arguments.\<close>

definition Math_min :: "num list \<Rightarrow> num option" where
  "Math_min xs = (case xs of [] \<Rightarrow> None | x # rest \<Rightarrow> Some (foldl min x rest))"

definition Math_max :: "num list \<Rightarrow> num option" where
  "Math_max xs = (case xs of [] \<Rightarrow> None | x # rest \<Rightarrow> Some (foldl max x rest))"

definition minToString :: "platform \<Rightarrow> num option \<Rightarrow> string" where
  "minToString p m = (case m of None \<Rightarrow> ''Infinity'' | Some x \<Rightarrow> numToString p x)"

definition maxToString :: "platform \<Rightarrow> num option \<Rightarrow> string" where
  "maxToString p m = (case m of None \<Rightarrow> ''-Infinity'' | Some x \<Rightarrow> numToString p x)"

text \<open>
  \<^verbatim>\<open>conditions.sort((a, b) => count(a) - count(b)).pop()\<close>. The comparator orders the codes
  by their number of occurrences in \<^verbatim>\<open>conditions\<close>, which no permutation of the array
  changes; \<^verbatim>\<open>sort\<close> is stable, so its result is the stable sort by that key.
  \<^verbatim>\<open>pop\<close> on an empty array is \<^verbatim>\<open>undefined\<close>.
\<close>

definition occurrences :: "string list \<Rightarrow> string \<Rightarrow> nat" where
  "occurrences conds a = length (filter (\<lambda>v. v = a) conds)"

definition mostCommon :: "string list \<Rightarrow> string option" where
  "mostCommon conds =
     (let sorted = sort_key (occurrences conds) conds
      in if sorted = [] then None else Some (last sorted))"

text \<open>
  \<^verbatim>\<open>x.toFixed(1)\<close> is the decimal string of \<^verbatim>\<open>n / 10\<close> for the integer \<^verbatim>\<open>n\<close> nearest
  to \<^verbatim>\<open>10 * |x|\<close> (the larger one on a tie), with the sign of a negative \<^verbatim>\<open>x\<close> in front.
  The result is kept as the sign and \<^verbatim>\<open>n\<close>; \<^verbatim>\<open>fixed1_string\<close> is the string and
  \<^verbatim>\<open>fixed1_number\<close> the number that JavaScript converts the string to when it is
  compared with \<^verbatim>\<open>0\<close>. (Numbers from 1e21 on, which \<^verbatim>\<open>toFixed\<close> prints in exponent
  notation, are printed in full here.)
\<close>

record fixed1 =
  negative :: bool
  tenths :: nat

definition toFixed1 :: "num \<Rightarrow> fixed1" where
  "toFixed1 x = \<lparr>negative = (x < 0), tenths = nat \<lfloor>\<bar>x\<bar> * 10 + 1 / 2\<rfloor>\<rparr>"

definition fixed1_string :: "fixed1 \<Rightarrow> string" where
  "fixed1_string f =
     (if negative f then ''-'' else []) @ dec (tenths f div 10) @ ''.'' @ dec (tenths f mod 10)"

definition fixed1_number :: "fixed1 \<Rightarrow> num" where
  "fixed1_number f = (if negative f then - (of_nat (tenths f) / 10) else of_nat (tenths f) / 10)"

text \<open>The callback of \<^verbatim>\<open>map\<close> over the first three days.\<close>

definition day_line :: "platform \<Rightarrow> int \<times> day_acc \<Rightarrow> string" where
  "day_line p = (\<lambda>(date, data).
     let dayName = toLocaleDateString p date;
         minTemp = Math_min (temps data);
         maxTemp = Math_max (temps data);
         icon = formatWeatherIcon (mostCommon (conditions data));
         rain = toFixed1 (precipitation data)
     in icon @ '' '' @ dayName @ '': '' @ minToString p minTemp @ degC @ '' - ''
          @ maxToString p maxTemp @ degC
          @ (if fixed1_number rain > 0 then '', '' @ fixed1_string rain @ ''mm rain'' else []))"

definition get_3day_forecast :: "platform \<Rightarrow> yr_json fetch_outcome \<Rightarrow> js_error + string" where
  "get_3day_forecast p r =
     (case fetchHaldenForecast r of
        Inl err \<Rightarrow> Inl err
      | Inr None \<Rightarrow> Inr forecast_failure
      | Inr (Some data) \<Rightarrow>
          (case data of
             NoTimeseries \<Rightarrow> Inl TypeError
           | Forecast timeseries \<Rightarrow>
               let dailyData = groupByDay timeseries;
                   days = map (day_line p) (take 3 dailyData)
               in Inr (join newline ([threeday_header, []] @ days))))"

section \<open>Tool 4: activity suggestions\<close>

text \<open>
  The weather bands of the handler: from the first entry to the list \<^verbatim>\<open>suggestions\<close> and
  the string \<^verbatim>\<open>searchQuery\<close>. \<^verbatim>\<open>undefined > 0\<close> is false.
\<close>

definition weather_suggestions :: "entry \<Rightarrow> string list \<times> string" where
  "weather_suggestions current =
     (let temp = air_temperature current;
          wind = wind_speed current;
          next1h = next_1_hours current;
          hasRain = (case precip_of next1h of None \<Rightarrow> False | Some amount \<Rightarrow> amount > 0);
          (suggestions, searchQuery) =
            (if hasRain then
               ([indoor_msg], ''Halden Norway '' @ ''indoor activities museums cafes'')
             else if temp > 15 then
               ([outdoor_msg], ''Halden Norway '' @ ''hiking parks outdoor activities'')
             else if temp < 5 then
               ([cold_msg], ''Halden Norway '' @ ''winter activities indoor venues'')
             else
               ([mild_msg], ''Halden Norway '' @ ''walking trails parks cafes''))
      in (if wind > 10 then suggestions @ [windy_msg] else suggestions, searchQuery))"

definition place_line :: "nat \<times> search_result \<Rightarrow> string" where
  "place_line = (\<lambda>(i, result).
     dec (i + 1) @ ''. '' @ title result @ newline @ ''   '' @ url result)"

text \<open>
  The search step of the handler: the text \<^verbatim>\<open>activityResults\<close> and the search requests
  that were issued. \<^verbatim>\<open>results?.web?.results?.length\<close> is falsy when the search failed,
  when the path is absent and when the list is empty.
\<close>

definition activity_results ::
  "string option \<Rightarrow> (brave_request \<Rightarrow> brave_json fetch_outcome) \<Rightarrow> string
     \<Rightarrow> string \<times> brave_request list" where
  "activity_results key net searchQuery =
     (if key_configured key then
        let (results, issued) = braveSearch key net searchQuery 2
        in (case results of
              None \<Rightarrow> ([], issued)
            | Some found \<Rightarrow>
                (case web_results found of
                   None \<Rightarrow> ([], issued)
                 | Some places \<Rightarrow>
                     if length places = 0 then ([], issued)
                     else (places_header
                             @ join (newline @ newline) (map place_line (enumerate 0 places)),
                           issued)))
      else (search_hint, []))"

text \<open>The handler returns its result and the search requests that it issued.\<close>

definition suggest_activities ::
  "platform \<Rightarrow> string option \<Rightarrow> (brave_request \<Rightarrow> brave_json fetch_outcome)
     \<Rightarrow> yr_json fetch_outcome \<Rightarrow> (js_error + string) \<times> brave_request list" where
  "suggest_activities p key net r =
     (case fetchHaldenForecast r of
        Inl err \<Rightarrow> (Inl err, [])
      | Inr None \<Rightarrow> (Inr activity_failure, [])
      | Inr (Some data) \<Rightarrow>
          (case data of
             NoTimeseries \<Rightarrow> (Inl TypeError, [])
           | Forecast timeseries \<Rightarrow>
               (case timeseries of
                  [] \<Rightarrow> (Inl TypeError, [])
                | current # rest \<Rightarrow>
                    let temp = air_temperature current;
                        wind = wind_speed current;
                        (suggestions, searchQuery) = weather_suggestions current;
                        (activityResults, issued) = activity_results key net searchQuery
                    in (Inr (join newline
                          ([activity_target @ '' Activity suggestions for Halden (''
                              @ numToString p temp @ degC @ '', '' @ numToString p wind
                              @ '' m/s wind):'',
                            []] @ suggestions @ [activityResults])),
                        issued))))"

section \<open>The aggregation in the words of the specification\<close>

text \<open>The distinct elements of a list in the order of their first occurrence.\<close>

definition first_seen :: "'a list \<Rightarrow> 'a list" where
  "first_seen xs = rev (remdups (rev xs))"

definition day_entries :: "int \<Rightarrow> entry list \<Rightarrow> entry list" where
  "day_entries d entries = filter (\<lambda>e. dayKey e = d) entries"

text \<open>The next-hour precipitation amount of an entry, 0 when it is absent.\<close>

definition present_precipitation :: "entry \<Rightarrow> num" where
  "present_precipitation e = (case precip_of (next_1_hours e) of None \<Rightarrow> 0 | Some a \<Rightarrow> a)"

text \<open>The condition codes of the entries that have one.\<close>

definition present_codes :: "entry list \<Rightarrow> string list" where
  "present_codes entries =
     concat (map (\<lambda>e. case symbol_of (next_1_hours e) of
                         None \<Rightarrow> []
                       | Some code \<Rightarrow> if code = [] then [] else [code]) entries)"

text \<open>The sum of a list of doubles as the program's arithmetic computes it: from 0, adding
  the amounts from left to right.\<close>

definition double_sum :: "num list \<Rightarrow> num" where
  "double_sum amounts = foldl double_add 0 amounts"

definition day_group :: "entry list \<Rightarrow> int \<Rightarrow> int \<times> day_acc" where
  "day_group entries d =
     (d, \<lparr>temps = map air_temperature (day_entries d entries),
          conditions = present_codes (day_entries d entries),
          precipitation = double_sum (map present_precipitation (day_entries d entries))\<rparr>)"

text \<open>
  The line that the three-day handler prints for day \<^verbatim>\<open>d\<close>, from the entries of that
  day: the icon of the dominant condition, the label of the day, the minimum and the
  maximum temperature, and the precipitation total to one decimal place when that
  decimal number is above 0.
\<close>

definition day_report :: "platform \<Rightarrow> entry list \<Rightarrow> int \<Rightarrow> string" where
  "day_report p entries d =
     formatWeatherIcon (mostCommon (present_codes (day_entries d entries)))
       @ '' '' @ toLocaleDateString p d @ '': ''
       @ numToString p (Min (air_temperature ` set (day_entries d entries))) @ degC @ '' - ''
       @ numToString p (Max (air_temperature ` set (day_entries d entries))) @ degC
       @ (if 0 < fixed1_number
                  (toFixed1 (double_sum (map present_precipitation (day_entries d entries))))
          then '', ''
                 @ fixed1_string
                     (toFixed1 (double_sum (map present_precipitation (day_entries d entries))))
                 @ ''mm rain''
          else [])"

section \<open>A platform for closed examples\<close>

text \<open>
  The theorems hold for every platform. Closed examples need one: a process in the UTC
  time zone that prints a number as its integer part followed by up to 17 decimals, and a
  day by its number.
\<close>

fun frac_digits :: "nat \<Rightarrow> rat \<Rightarrow> string" where
  "frac_digits 0 x = []"
| "frac_digits (Suc k) x =
     (if x = 0 then []
      else char_of (48 + nat \<lfloor>x * 10\<rfloor>) # frac_digits k (x * 10 - of_int \<lfloor>x * 10\<rfloor>))"

definition plain_decimal :: "rat \<Rightarrow> string" where
  "plain_decimal x =
     (if x < 0 then ''-'' else []) @ dec (nat \<lfloor>\<bar>x\<bar>\<rfloor>)
       @ (if \<bar>x\<bar> = of_int \<lfloor>\<bar>x\<bar>\<rfloor> then []
          else ''.'' @ frac_digits 17 (\<bar>x\<bar> - of_int \<lfloor>\<bar>x\<bar>\<rfloor>))"

definition sample_platform :: platform where
  "sample_platform =
     \<lparr>numToString = plain_decimal,
      getHours = (\<lambda>t. nat ((t div 3600000) mod 24)),
      toLocaleDateString = (\<lambda>d. ''day '' @ (if d < 0 then ''-'' else []) @ dec (nat \<bar>d\<bar>))\<rparr>"

text \<open>Entries for the examples: at the instant \<^verbatim>\<open>t\<close>, with a temperature, a wind speed and
  an optional next-hour block.\<close>

definition sample_entry :: "int \<Rightarrow> num \<Rightarrow> num \<Rightarrow> next1h option \<Rightarrow> entry" where
  "sample_entry t temp wind next1h =
     \<lparr>time = t, air_temperature = temp, wind_speed = wind, relative_humidity = 80,
      air_pressure_at_sea_level = 1013, next_1_hours = next1h\<rparr>"

text \<open>Four entries on two days: temperatures 2 and 8 on day 0, 10 and 1 on day 1.\<close>

definition two_day_entries :: "entry list" where
  "two_day_entries =
     [sample_entry 0 2 3 None,
      sample_entry 3600000 8 3
        (Some \<lparr>symbol_code = Some ''rain'', precipitation_amount = Some (1 / 2)\<rparr>),
      sample_entry 86400000 10 3 None,
      sample_entry 90000000 1 3 None]"

text \<open>
  Two entries on one day whose amounts are the doubles of 0.01 and 2.04. Their exact sum
  is above 2.05; the sum of the doubles is the double of 2.05, which is below it.
\<close>

definition rounding_entries :: "entry list" where
  "rounding_entries =
     [sample_entry 0 2 3
        (Some \<lparr>symbol_code = None,
               precipitation_amount = Some (5764607523034235 / 576460752303423488)\<rparr>),
      sample_entry 3600000 8 3
        (Some \<lparr>symbol_code = None,
               precipitation_amount = Some (2296835809958953 / 1125899906842624)\<rparr>)]"

text \<open>Two entries on two days without the next-hour block.\<close>

definition bare_entries :: "entry list" where
  "bare_entries = [sample_entry 0 3 12 None, sample_entry 90000000 7 2 None]"

text \<open>An entry with 0.04 mm of precipitation in the next hour.\<close>

definition drizzle_entry :: entry where
  "drizzle_entry =
     sample_entry 0 3 2 (Some \<lparr>symbol_code = None, precipitation_amount = Some (1 / 25)\<rparr>)"

text \<open>Two search results.\<close>

definition two_results :: "search_result list" where
  "two_results =
     [\<lparr>title = ''Fredriksten'', url = ''https://example.org/a'', description = ''fortress''\<rparr>,
      \<lparr>title = ''Cafe'', url = ''https://example.org/b'', description = ''coffee''\<rparr>]"

section \<open>Properties of the icon mapper\<close>

lemma str_includes_iff: "str_includes s pat \<longleftrightarrow> (\<exists>before after. s = before @ pat @ after)"
  by (simp add: str_includes_def sublist_def)

lemma str_includes_Nil: "\<not> str_includes [] (c # cs)"
  by (simp add: str_includes_def)

text \<open>
  C3. The icon mapper is total on optional strings. It returns the glyph of the first of
  rain, snow, thunder, fog, cloudy, fair, clear that occurs in the code as a substring,
  and the default glyph when the code is absent, empty or matches none of the seven; a
  code that contains "rain" yields the rain glyph whatever else it contains (for example
  "cloudy").
\<close>

theorem formatWeatherIcon_first_match:
  "formatWeatherIcon symbolCode = icon_first_match symbolCode
   \<and> formatWeatherIcon None = glyph_default
   \<and> formatWeatherIcon (Some []) = glyph_default
   \<and> ((\<forall>pat \<in> fst ` set icon_table. \<not> str_includes code pat)
        \<longrightarrow> formatWeatherIcon (Some code) = glyph_default)
   \<and> (str_includes code ''rain'' \<longrightarrow> formatWeatherIcon (Some code) = glyph_rain)
   \<and> (str_includes code ''rain'' \<and> str_includes code ''cloudy''
        \<longrightarrow> formatWeatherIcon (Some code) = glyph_rain)"
proof -
  have nonempty: "code' \<noteq> []" if "str_includes code' (c # cs)" for code' c cs
    using that str_includes_Nil by auto
  have "formatWeatherIcon symbolCode = icon_first_match symbolCode"
  proof (cases symbolCode)
    case None
    then show ?thesis by (simp add: formatWeatherIcon_def icon_first_match_def)
  next
    case (Some code')
    show ?thesis
    proof (cases "code' = []")
      case True
      with Some show ?thesis
        by (simp add: formatWeatherIcon_def icon_first_match_def icon_table_def str_includes_Nil)
    next
      case False
      with Some show ?thesis
        by (simp add: formatWeatherIcon_def icon_first_match_def icon_table_def)
    qed
  qed
  moreover have "formatWeatherIcon None = glyph_default"
    by (simp add: formatWeatherIcon_def)
  moreover have "formatWeatherIcon (Some []) = glyph_default"
    by (simp add: formatWeatherIcon_def)
  moreover have "(\<forall>pat \<in> fst ` set icon_table. \<not> str_includes code pat)
      \<longrightarrow> formatWeatherIcon (Some code) = glyph_default"
    by (simp add: formatWeatherIcon_def icon_table_def)
  moreover have "str_includes code ''rain'' \<longrightarrow> formatWeatherIcon (Some code) = glyph_rain"
    using nonempty [of code] by (auto simp add: formatWeatherIcon_def)
  ultimately show ?thesis by blast
qed

theorem formatWeatherIcon_first_match_witness:
  "str_includes ''rain_and_cloudy'' ''rain'' \<and> str_includes ''rain_and_cloudy'' ''cloudy''
   \<and> formatWeatherIcon (Some ''rain_and_cloudy'') = glyph_rain
   \<and> \<not> str_includes ''sleet'' ''rain'' \<and> \<not> str_includes ''sleet'' ''clear''
   \<and> formatWeatherIcon (Some ''sleet'') = glyph_default"
proof -
  have r: "str_includes ''rain_and_cloudy'' ''rain''"
    by (simp add: str_includes_def sublist_Cons_right)
  have c: "str_includes ''rain_and_cloudy'' ''cloudy''"
    by (simp add: str_includes_def sublist_Cons_right)
  have n: "\<forall>pat \<in> fst ` set icon_table. \<not> str_includes ''sleet'' pat"
    by (simp add: icon_table_def str_includes_def sublist_Cons_right)
  then have n': "\<not> str_includes ''sleet'' ''rain''" "\<not> str_includes ''sleet'' ''clear''"
    by (simp_all add: icon_table_def)
  from r c n n' formatWeatherIcon_first_match [of "Some ''rain_and_cloudy''" "''rain_and_cloudy''"]
    formatWeatherIcon_first_match [of "Some ''sleet''" "''sleet''"]
  show ?thesis by blast
qed

section \<open>Properties of the aggregator\<close>

lemma first_seen_snoc:
  "first_seen (xs @ [x]) = (if x \<in> set xs then first_seen xs else first_seen xs @ [x])"
  by (simp add: first_seen_def)

lemma distinct_first_seen: "distinct (first_seen xs)"
  by (simp add: first_seen_def)

lemma set_first_seen: "set (first_seen xs) = set xs"
  by (simp add: first_seen_def)

lemma update_day_map:
  "distinct ds \<Longrightarrow>
   update_day k f (map (\<lambda>d. (d, g d)) ds) = map (\<lambda>d. (d, if d = k then f (g d) else g d)) ds"
  by (induction ds) auto

lemma map_of_day_map: "map_of (map (\<lambda>d. (d, g d)) ds) k = None \<longleftrightarrow> k \<notin> set ds"
  by (induction ds) auto

lemma day_entries_snoc:
  "day_entries d (es @ [e]) = (if dayKey e = d then day_entries d es @ [e] else day_entries d es)"
  by (simp add: day_entries_def)

lemma day_entries_absent: "d \<notin> dayKey ` set es \<Longrightarrow> day_entries d es = []"
  by (auto simp: day_entries_def filter_empty_conv)

lemma present_codes_snoc:
  "present_codes (es @ [e]) = present_codes es @
     (case symbol_of (next_1_hours e) of None \<Rightarrow> [] | Some code \<Rightarrow> if code = [] then [] else [code])"
  by (simp add: present_codes_def)

text \<open>\<^verbatim>\<open>floor_log2\<close> brackets a positive number between two powers of two.\<close>

lemma pow2_powi: "pow2 e = 2 powi e"
  by (simp add: pow2_def power_int_def field_simps)

lemma pow2_Suc: "pow2 (e + 1) = 2 * pow2 e"
  by (simp add: pow2_powi power_int_add)

lemma log2_up_bounds: "1 \<le> y \<Longrightarrow> pow2 (log2_up y) \<le> y \<and> y < pow2 (log2_up y + 1)"
proof (induction y rule: log2_up.induct)
  case (1 y)
  show ?case
  proof (cases "y < 2")
    case True
    with 1 show ?thesis by (simp add: log2_up.simps pow2_def)
  next
    case False
    then have "1 \<le> y / 2" by simp
    with 1 False have "pow2 (log2_up (y / 2)) \<le> y / 2 \<and> y / 2 < pow2 (log2_up (y / 2) + 1)"
      by simp
    with False show ?thesis
      using pow2_Suc [of "log2_up (y / 2)"] pow2_Suc [of "log2_up (y / 2) + 1"]
      by (simp add: log2_up.simps [of y] add.commute)
  qed
qed

lemma log2_down_bounds:
  "0 < y \<Longrightarrow> y < 1 \<Longrightarrow> pow2 (log2_down y) \<le> y \<and> y < pow2 (log2_down y + 1)"
proof (induction y rule: log2_down.induct)
  case (1 y)
  then have step: "log2_down y = log2_down (y * 2) - 1"
    by (simp add: log2_down.simps [of y])
  show ?case
  proof (cases "y * 2 < 1")
    case True
    with 1 have "pow2 (log2_down (y * 2)) \<le> y * 2 \<and> y * 2 < pow2 (log2_down (y * 2) + 1)"
      by simp
    then show ?thesis
      using pow2_Suc [of "log2_down (y * 2) - 1"] pow2_Suc [of "log2_down (y * 2)"]
      by (simp add: step)
  next
    case False
    then have "log2_down (y * 2) = 0" by (simp add: log2_down.simps [of "y * 2"])
    with False 1 show ?thesis by (simp add: step pow2_def)
  qed
qed

lemma floor_log2_bounds:
  "0 < y \<Longrightarrow> pow2 (floor_log2 y) \<le> y \<and> y < pow2 (floor_log2 y + 1)"
  using log2_up_bounds [of y] log2_down_bounds [of y] by (simp add: floor_log2_def)

text \<open>Rounding at work: the doubles of 0.01, 2.04 and 0.5, the sum of the first two, which
  is not their exact sum, and 0.1 + 0.2.\<close>

lemma round_double_examples:
  "round_double (1 / 100) = 5764607523034235 / 576460752303423488"
  "round_double (51 / 25) = 2296835809958953 / 1125899906842624"
  "round_double (1 / 2) = 1 / 2"
  "double_add (5764607523034235 / 576460752303423488) (2296835809958953 / 1125899906842624)
     = 2308094809027379 / 1125899906842624"
  "5764607523034235 / 576460752303423488 + 2296835809958953 / 1125899906842624
     \<noteq> (2308094809027379 / 1125899906842624 :: rat)"
  "double_add (round_double (1 / 10)) (round_double (1 / 5)) = 5404319552844596 / 18014398509481984"
  by code_simp+

lemma double_add_zero: "double_add x 0 = x"
  by (simp add: double_add_def)

lemma double_sum_snoc: "double_sum (xs @ [a]) = double_add (double_sum xs) a"
  by (simp add: double_sum_def)

lemma double_sum_Nil: "double_sum [] = 0"
  by (simp add: double_sum_def)

lemma group_entry_groups:
  "group_entry (map (day_group es) (first_seen (map dayKey es))) e
     = map (day_group (es @ [e])) (first_seen (map dayKey (es @ [e])))"
proof -
  define ds where "ds = first_seen (map dayKey es)"
  define k where "k = dayKey e"
  define ds' where "ds' = (if k \<in> set ds then ds else ds @ [k])"
  have dist: "distinct ds'" and kin: "k \<in> set ds'"
    by (auto simp: ds'_def ds_def distinct_first_seen)
  have ds'_eq: "first_seen (map dayKey (es @ [e])) = ds'"
    by (simp add: first_seen_snoc ds'_def ds_def k_def set_first_seen)
  have absent: "day_group es k = (k, \<lparr>temps = [], conditions = [], precipitation = 0\<rparr>)"
    if "k \<notin> set ds"
    using that
    by (simp add: day_group_def day_entries_absent ds_def set_first_seen present_codes_def
        double_sum_Nil)
  have eta: "day_group es' = (\<lambda>d. (d, snd (day_group es' d)))" for es'
    by (simp add: fun_eq_iff day_group_def)
  have none: "map_of (map (day_group es) ds) k = None \<longleftrightarrow> k \<notin> set ds"
    using map_of_day_map [of "\<lambda>d. snd (day_group es d)" ds k] eta [of es] by simp
  have d1: "(if map_of (map (day_group es) ds) k = None
             then map (day_group es) ds @ [(k, \<lparr>temps = [], conditions = [], precipitation = 0\<rparr>)]
             else map (day_group es) ds) = map (day_group es) ds'"
  proof (cases "k \<in> set ds")
    case True
    then show ?thesis
      using none by (simp add: ds'_def)
  next
    case False
    then show ?thesis
      using none absent by (simp add: ds'_def)
  qed
  have "group_entry (map (day_group es) ds) e = map (day_group (es @ [e])) ds'"
  proof -
    have A: "map (day_group es) ds' = map (\<lambda>d. (d, snd (day_group es d))) ds'"
      by (simp add: day_group_def)
    show ?thesis
      unfolding group_entry_def Let_def k_def [symmetric] d1 A
      using dist
      by (auto simp: day_group_def update_day_map day_entries_snoc present_codes_snoc k_def
          present_precipitation_def double_sum_snoc double_add_zero split: option.splits)
  qed
  then show ?thesis unfolding ds'_eq ds_def .
qed

lemma groupByDay_groups: "groupByDay es = map (day_group es) (first_seen (map dayKey es))"
proof (induction es rule: rev_induct)
  case Nil
  then show ?case by (simp add: groupByDay_def first_seen_def)
next
  case (snoc e es)
  then show ?case
    using group_entry_groups [of es e] by (simp add: groupByDay_def)
qed


lemma foldl_min_Min: "foldl min x xs = Min (set (x # xs))"
proof (induction xs arbitrary: x)
  case Nil
  then show ?case by simp
next
  case (Cons y ys)
  have "Min (set (x # y # ys)) = Min (set (min x y # ys))"
    by (cases "ys = []") (simp_all add: min.assoc)
  with Cons show ?case by simp
qed

lemma foldl_max_Max: "foldl max x xs = Max (set (x # xs))"
proof (induction xs arbitrary: x)
  case Nil
  then show ?case by simp
next
  case (Cons y ys)
  have "Max (set (x # y # ys)) = Max (set (max x y # ys))"
    by (cases "ys = []") (simp_all add: max.assoc)
  with Cons show ?case by simp
qed

lemma Math_min_Min: "xs \<noteq> [] \<Longrightarrow> Math_min xs = Some (Min (set xs))"
  by (cases xs) (simp_all add: Math_min_def foldl_min_Min del: foldl_Cons set_simps)

lemma Math_max_Max: "xs \<noteq> [] \<Longrightarrow> Math_max xs = Some (Max (set xs))"
  by (cases xs) (simp_all add: Math_max_def foldl_max_Max del: foldl_Cons set_simps)

lemma day_entries_present: "d \<in> dayKey ` set es \<Longrightarrow> day_entries d es \<noteq> []"
  by (auto simp: day_entries_def filter_empty_conv)

lemma day_line_report:
  assumes "d \<in> dayKey ` set entries"
  shows "day_line p (day_group entries d) = day_report p entries d"
proof -
  from assms have ne: "map air_temperature (day_entries d entries) \<noteq> []"
    using day_entries_present by simp
  show ?thesis
    using Math_min_Min [OF ne] Math_max_Max [OF ne]
    by (simp add: day_line_def day_group_def day_report_def minToString_def maxToString_def
        Let_def)
qed

text \<open>
  C2. The three-day aggregation groups the entries by the UTC day of their timestamps, in
  the order in which the days are first seen, and emits at most the first three groups.
  For each emitted day the minimum and the maximum are those of the day's air
  temperatures, and the precipitation is the sum of the day's next-hour amounts, an
  absent amount counting 0, added as doubles in the order of the entries. The handler
  prints one line per emitted day, in that order, with this minimum, this maximum and
  this sum (to one decimal place, when that decimal number is above 0). Entries on
  exactly two days with temperatures 2, 8 and 10, 1 give two days with minimum and
  maximum (2, 8) and (1, 10), in day order.
\<close>

theorem three_day_aggregation:
  "map fst (groupByDay entries) = first_seen (map dayKey entries)
   \<and> take 3 (groupByDay entries) = map (day_group entries) (take 3 (first_seen (map dayKey entries)))
   \<and> length (take 3 (groupByDay entries)) \<le> 3
   \<and> (\<forall>(date, data) \<in> set (take 3 (groupByDay entries)).
         Math_min (temps data) = Some (Min (air_temperature ` set (day_entries date entries)))
         \<and> Math_max (temps data) = Some (Max (air_temperature ` set (day_entries date entries)))
         \<and> precipitation data = double_sum (map present_precipitation (day_entries date entries)))
   \<and> (first_seen (map dayKey entries) = [d1, d2]
        \<and> map air_temperature (day_entries d1 entries) = [2, 8]
        \<and> map air_temperature (day_entries d2 entries) = [10, 1]
       \<longrightarrow> map (\<lambda>(date, data). (date, Math_min (temps data), Math_max (temps data)))
             (take 3 (groupByDay entries))
           = [(d1, Some 2, Some 8), (d2, Some 1, Some 10)])
   \<and> (ok status
       \<longrightarrow> get_3day_forecast p (Response status (Json (Forecast entries)))
           = Inr (join newline
               ([threeday_header, []] @ map (day_line p) (take 3 (groupByDay entries)))))
   \<and> map (day_line p) (take 3 (groupByDay entries))
       = map (day_report p entries) (take 3 (first_seen (map dayKey entries)))
   \<and> (ok status
       \<longrightarrow> get_3day_forecast p (Response status (Json (Forecast entries)))
           = Inr (join newline
               ([threeday_header, []]
                @ map (\<lambda>d.
                    formatWeatherIcon (mostCommon (present_codes (day_entries d entries)))
                      @ '' '' @ toLocaleDateString p d @ '': ''
                      @ numToString p (Min (air_temperature ` set (day_entries d entries)))
                      @ degC @ '' - ''
                      @ numToString p (Max (air_temperature ` set (day_entries d entries)))
                      @ degC
                      @ (if 0 < fixed1_number (toFixed1
                                 (double_sum (map present_precipitation (day_entries d entries))))
                         then '', ''
                                @ fixed1_string (toFixed1
                                    (double_sum (map present_precipitation (day_entries d entries))))
                                @ ''mm rain''
                         else []))
                    (take 3 (first_seen (map dayKey entries))))))"
proof -
  let ?days = "first_seen (map dayKey entries)"
  have groups: "groupByDay entries = map (day_group entries) ?days"
    by (rule groupByDay_groups)
  have keys: "map fst (groupByDay entries) = ?days"
    unfolding groups by (simp add: day_group_def comp_def)
  have first3: "take 3 (groupByDay entries) = map (day_group entries) (take 3 ?days)"
    unfolding groups by (simp add: take_map)
  have each: "Math_min (temps data) = Some (Min (air_temperature ` set (day_entries date entries)))
      \<and> Math_max (temps data) = Some (Max (air_temperature ` set (day_entries date entries)))
      \<and> precipitation data = double_sum (map present_precipitation (day_entries date entries))"
    if "(date, data) \<in> set (take 3 (groupByDay entries))" for date data
  proof -
    from that obtain d where d: "d \<in> set (take 3 ?days)" and eq: "(date, data) = day_group entries d"
      unfolding first3 by auto
    from d have "d \<in> set ?days" by (rule in_set_takeD)
    then have "d \<in> dayKey ` set entries" by (simp add: set_first_seen)
    then have ne: "map air_temperature (day_entries d entries) \<noteq> []"
      using day_entries_present by simp
    from eq have date: "date = d"
      and data: "data = snd (day_group entries d)"
      by (simp_all add: day_group_def)
    show ?thesis
      using Math_min_Min [OF ne] Math_max_Max [OF ne]
      by (simp add: date data day_group_def)
  qed
  have example: "map (\<lambda>(date, data). (date, Math_min (temps data), Math_max (temps data)))
        (take 3 (groupByDay entries)) = [(d1, Some 2, Some 8), (d2, Some 1, Some 10)]"
    if "?days = [d1, d2]" "map air_temperature (day_entries d1 entries) = [2, 8]"
      "map air_temperature (day_entries d2 entries) = [10, 1]"
    unfolding first3 using that by (simp add: day_group_def Math_min_def Math_max_def)
  have handler: "get_3day_forecast p (Response status (Json (Forecast entries)))
      = Inr (join newline ([threeday_header, []] @ map (day_line p) (take 3 (groupByDay entries))))"
    if "ok status"
    using that by (simp add: get_3day_forecast_def fetchHaldenForecast_def fetch_try_def)
  have "day_line p (day_group entries d) = day_report p entries d"
    if "d \<in> set (take 3 ?days)" for d
  proof -
    from that have "d \<in> set ?days" by (rule in_set_takeD)
    then have "d \<in> dayKey ` set entries" by (simp add: set_first_seen)
    then show ?thesis by (rule day_line_report)
  qed
  then have lines: "map (day_line p) (take 3 (groupByDay entries))
      = map (day_report p entries) (take 3 ?days)"
    unfolding first3 by simp
  have report: "day_report p entries = (\<lambda>d.
                    formatWeatherIcon (mostCommon (present_codes (day_entries d entries)))
                      @ '' '' @ toLocaleDateString p d @ '': ''
                      @ numToString p (Min (air_temperature ` set (day_entries d entries)))
                      @ degC @ '' - ''
                      @ numToString p (Max (air_temperature ` set (day_entries d entries)))
                      @ degC
                      @ (if 0 < fixed1_number (toFixed1
                                 (double_sum (map present_precipitation (day_entries d entries))))
                         then '', ''
                                @ fixed1_string (toFixed1
                                    (double_sum (map present_precipitation (day_entries d entries))))
                                @ ''mm rain''
                         else []))"
    by (simp add: fun_eq_iff day_report_def)
  have printed: "get_3day_forecast p (Response status (Json (Forecast entries)))
      = Inr (join newline ([threeday_header, []] @ map (day_report p entries) (take 3 ?days)))"
    if "ok status"
    using handler [OF that] lines by simp
  have c4: "\<forall>(date, data) \<in> set (take 3 (groupByDay entries)).
         Math_min (temps data) = Some (Min (air_temperature ` set (day_entries date entries)))
         \<and> Math_max (temps data) = Some (Max (air_temperature ` set (day_entries date entries)))
         \<and> precipitation data = double_sum (map present_precipitation (day_entries date entries))"
    using each by blast
  have c3: "length (take 3 (groupByDay entries)) \<le> 3" by simp
  from keys first3 c3 c4 example handler lines printed [unfolded report]
  show ?thesis by (intro conjI impI) blast+
qed

theorem three_day_aggregation_witness:
  "first_seen (map dayKey two_day_entries) = [0, 1]
   \<and> map air_temperature (day_entries 0 two_day_entries) = [2, 8]
   \<and> map air_temperature (day_entries 1 two_day_entries) = [10, 1]
   \<and> map (\<lambda>(date, data). (date, Math_min (temps data), Math_max (temps data)))
        (take 3 (groupByDay two_day_entries))
       = [(0, Some 2, Some 8), (1, Some 1, Some 10)]
   \<and> map (\<lambda>(date, data). precipitation data) (take 3 (groupByDay two_day_entries)) = [1 / 2, 0]
   \<and> ok 200
   \<and> get_3day_forecast sample_platform (Response 200 (Json (Forecast two_day_entries)))
       = Inr (join newline
           [threeday_header, [],
            glyph_rain @ '' day 0: 2'' @ degC @ '' - 8'' @ degC @ '', 0.5mm rain'',
            glyph_default @ '' day 1: 1'' @ degC @ '' - 10'' @ degC])
   \<and> map (\<lambda>(date, data). precipitation data) (take 3 (groupByDay rounding_entries))
       = [2308094809027379 / 1125899906842624]
   \<and> get_3day_forecast sample_platform (Response 200 (Json (Forecast rounding_entries)))
       = Inr (join newline
           [threeday_header, [],
            glyph_default @ '' day 0: 2'' @ degC @ '' - 8'' @ degC @ '', 2.0mm rain''])"
proof -
  have days: "first_seen (map dayKey two_day_entries) = [0, 1]"
    by (simp add: two_day_entries_def first_seen_def dayKey_def sample_entry_def)
  have t0: "map air_temperature (day_entries 0 two_day_entries) = [2, 8]"
    by (simp add: two_day_entries_def day_entries_def dayKey_def sample_entry_def)
  have t1: "map air_temperature (day_entries 1 two_day_entries) = [10, 1]"
    by (simp add: two_day_entries_def day_entries_def dayKey_def sample_entry_def)
  have k: "ok 200" by (simp add: ok_def)
  note agg = three_day_aggregation [of two_day_entries 0 1 200 sample_platform]
  from agg days t0 t1
  have mm: "map (\<lambda>(date, data). (date, Math_min (temps data), Math_max (temps data)))
        (take 3 (groupByDay two_day_entries)) = [(0, Some 2, Some 8), (1, Some 1, Some 10)]"
    by blast
  from agg
  have g: "take 3 (groupByDay two_day_entries)
      = map (day_group two_day_entries) (take 3 (first_seen (map dayKey two_day_entries)))"
    by blast
  have p0: "double_sum (map present_precipitation (day_entries 0 two_day_entries)) = 1 / 2"
    by code_simp
  have p1: "double_sum (map present_precipitation (day_entries 1 two_day_entries)) = 0"
    by code_simp
  from g have pr: "map (\<lambda>(date, data). precipitation data) (take 3 (groupByDay two_day_entries))
      = [1 / 2, 0]"
    by (simp add: days day_group_def p0 p1)
  have r0: "day_report sample_platform two_day_entries 0
      = glyph_rain @ '' day 0: 2'' @ degC @ '' - 8'' @ degC @ '', 0.5mm rain''"
    by code_simp
  have r1: "day_report sample_platform two_day_entries 1
      = glyph_default @ '' day 1: 1'' @ degC @ '' - 10'' @ degC"
    by code_simp
  from agg k
  have "get_3day_forecast sample_platform (Response 200 (Json (Forecast two_day_entries)))
       = Inr (join newline ([threeday_header, []]
               @ map (day_line sample_platform) (take 3 (groupByDay two_day_entries))))"
    by blast
  moreover from agg
  have "map (day_line sample_platform) (take 3 (groupByDay two_day_entries))
      = map (day_report sample_platform two_day_entries)
          (take 3 (first_seen (map dayKey two_day_entries)))"
    by blast
  ultimately
  have out: "get_3day_forecast sample_platform (Response 200 (Json (Forecast two_day_entries)))
       = Inr (join newline
           [threeday_header, [],
            glyph_rain @ '' day 0: 2'' @ degC @ '' - 8'' @ degC @ '', 0.5mm rain'',
            glyph_default @ '' day 1: 1'' @ degC @ '' - 10'' @ degC])"
    by (simp add: days r0 r1)
  note rnd = three_day_aggregation [of rounding_entries 0 0 200 sample_platform]
  have rdays: "first_seen (map dayKey rounding_entries) = [0]"
    by (simp add: rounding_entries_def first_seen_def dayKey_def sample_entry_def)
  have rp: "double_sum (map present_precipitation (day_entries 0 rounding_entries))
      = 2308094809027379 / 1125899906842624"
    by code_simp
  from rnd
  have "take 3 (groupByDay rounding_entries)
      = map (day_group rounding_entries) (take 3 (first_seen (map dayKey rounding_entries)))"
    by blast
  then have rpr: "map (\<lambda>(date, data). precipitation data) (take 3 (groupByDay rounding_entries))
      = [2308094809027379 / 1125899906842624]"
    by (simp add: rdays day_group_def rp)
  have rr: "day_report sample_platform rounding_entries 0
      = glyph_default @ '' day 0: 2'' @ degC @ '' - 8'' @ degC @ '', 2.0mm rain''"
    by code_simp
  from rnd k
  have "get_3day_forecast sample_platform (Response 200 (Json (Forecast rounding_entries)))
       = Inr (join newline ([threeday_header, []]
               @ map (day_line sample_platform) (take 3 (groupByDay rounding_entries))))"
    by blast
  moreover from rnd
  have "map (day_line sample_platform) (take 3 (groupByDay rounding_entries))
      = map (day_report sample_platform rounding_entries)
          (take 3 (first_seen (map dayKey rounding_entries)))"
    by blast
  ultimately
  have rout: "get_3day_forecast sample_platform (Response 200 (Json (Forecast rounding_entries)))
       = Inr (join newline
           [threeday_header, [],
            glyph_default @ '' day 0: 2'' @ degC @ '' - 8'' @ degC @ '', 2.0mm rain''])"
    by (simp add: rdays rr)
  from days t0 t1 k mm pr out rpr rout show ?thesis by blast
qed

lemma occurrences_absent: "a \<notin> set conds \<Longrightarrow> occurrences conds a = 0"
  by (auto simp: occurrences_def filter_empty_conv)

lemma sorted_last_max: "sorted (map f xs) \<Longrightarrow> x \<in> set xs \<Longrightarrow> f x \<le> f (last xs)"
  by (induction xs) (auto split: if_splits)

text \<open>
  C8. For a non-empty list of condition codes, the dominant condition that the aggregator
  selects is one of the codes, and no code occurs more often among them than it does,
  however ties are broken.
\<close>

theorem mostCommon_maximal:
  assumes "conds \<noteq> []"
  shows "\<exists>c. mostCommon conds = Some c \<and> c \<in> set conds
           \<and> (\<forall>a. occurrences conds a \<le> occurrences conds c)"
proof -
  let ?sorted = "sort_key (occurrences conds) conds"
  from assms have ne: "?sorted \<noteq> []"
    by (metis length_0_conv length_sort)
  then have mc: "mostCommon conds = Some (last ?sorted)"
    by (simp add: mostCommon_def)
  from ne have "last ?sorted \<in> set ?sorted" by (rule last_in_set)
  then have mem: "last ?sorted \<in> set conds" by simp
  have "occurrences conds a \<le> occurrences conds (last ?sorted)" for a
  proof (cases "a \<in> set conds")
    case True
    then have "a \<in> set ?sorted" by simp
    with sorted_last_max [of "occurrences conds" ?sorted a] show ?thesis
      by simp
  next
    case False
    then show ?thesis by (simp add: occurrences_absent)
  qed
  with mc mem show ?thesis by blast
qed

theorem mostCommon_maximal_witness:
  "[''rain'', ''cloudy'', ''rain''] \<noteq> []
   \<and> (\<exists>c. mostCommon [''rain'', ''cloudy'', ''rain''] = Some c
         \<and> c \<in> set [''rain'', ''cloudy'', ''rain'']
         \<and> (\<forall>a. occurrences [''rain'', ''cloudy'', ''rain''] a
                 \<le> occurrences [''rain'', ''cloudy'', ''rain''] c))"
  using mostCommon_maximal [of "[''rain'', ''cloudy'', ''rain'']"] by simp

section \<open>Properties of the clients and the failure path\<close>

lemma fetch_ok_forecast:
  "ok status \<Longrightarrow> fetchHaldenForecast (Response status (Json (Forecast ts))) = Inr (Some (Forecast ts))"
  by (simp add: fetchHaldenForecast_def fetch_try_def)

lemma messages_distinct: "distinct [indoor_msg, outdoor_msg, cold_msg, mild_msg, windy_msg]"
  by (simp add: indoor_msg_def outdoor_msg_def cold_msg_def mild_msg_def windy_msg_def)

text \<open>
  C4. When the forecast fetch fails (a network error, a status outside 200 to 299, or a
  malformed JSON body), \<^verbatim>\<open>fetchHaldenForecast\<close> returns the sentinel \<^verbatim>\<open>null\<close>; it
  never passes a thrown error on to its caller; and on the sentinel each tool handler
  returns its one fixed failure text, the activity handler without issuing a search.
\<close>

theorem fetch_failure_fixed_message:
  "(r = NetworkError \<or> (\<exists>status b. r = Response status b \<and> \<not> (200 \<le> status \<and> status \<le> 299))
      \<or> (\<exists>status. r = Response status MalformedJson)
     \<longrightarrow> fetchHaldenForecast r = Inr None)
   \<and> fetchHaldenForecast r' \<noteq> Inl err
   \<and> (fetchHaldenForecast r = Inr None
     \<longrightarrow> get_current_weather p r = Inr current_weather_failure
       \<and> get_hourly_forecast p r = Inr forecast_failure
       \<and> get_3day_forecast p r = Inr forecast_failure
       \<and> suggest_activities p key net r = (Inr activity_failure, []))"
proof -
  have "fetchHaldenForecast r = Inr None"
    if "r = NetworkError \<or> (\<exists>status b. r = Response status b \<and> \<not> (200 \<le> status \<and> status \<le> 299))
      \<or> (\<exists>status. r = Response status MalformedJson)"
    using that by (auto simp: fetchHaldenForecast_def fetch_try_def ok_def split: body.splits)
  moreover have "fetchHaldenForecast r' \<noteq> Inl err"
    by (simp add: fetchHaldenForecast_def split: sum.splits)
  moreover have "get_current_weather p r = Inr current_weather_failure
       \<and> get_hourly_forecast p r = Inr forecast_failure
       \<and> get_3day_forecast p r = Inr forecast_failure
       \<and> suggest_activities p key net r = (Inr activity_failure, [])"
    if "fetchHaldenForecast r = Inr None"
    using that
    by (simp add: get_current_weather_def get_hourly_forecast_def get_3day_forecast_def
        suggest_activities_def)
  ultimately show ?thesis by blast
qed

theorem fetch_failure_fixed_message_witness:
  "fetchHaldenForecast (Response 500 (Json (Forecast two_day_entries))) = Inr None
   \<and> fetchHaldenForecast NetworkError = Inr None
   \<and> fetchHaldenForecast (Response 200 MalformedJson) = Inr None
   \<and> get_current_weather sample_platform (Response 500 (Json (Forecast two_day_entries)))
        = Inr current_weather_failure
   \<and> get_hourly_forecast sample_platform NetworkError = Inr forecast_failure
   \<and> get_3day_forecast sample_platform (Response 200 MalformedJson) = Inr forecast_failure
   \<and> suggest_activities sample_platform (Some ''secret'') (\<lambda>req. NetworkError) NetworkError
        = (Inr activity_failure, [])"
proof -
  have a: "fetchHaldenForecast (Response 500 (Json (Forecast two_day_entries))) = Inr None"
    using fetch_failure_fixed_message [of "Response 500 (Json (Forecast two_day_entries))"]
    by simp
  have b: "fetchHaldenForecast NetworkError = Inr None"
    using fetch_failure_fixed_message [of NetworkError] by simp
  have c: "fetchHaldenForecast (Response 200 MalformedJson) = Inr None"
    using fetch_failure_fixed_message [of "Response 200 MalformedJson"] by simp
  from a b c
    fetch_failure_fixed_message [of "Response 500 (Json (Forecast two_day_entries))" _ _ sample_platform]
    fetch_failure_fixed_message [of NetworkError _ _ sample_platform "Some ''secret''" "\<lambda>req. NetworkError"]
    fetch_failure_fixed_message [of "Response 200 MalformedJson" _ _ sample_platform]
  show ?thesis by simp
qed

text \<open>
  C5. Without a configured credential \<^verbatim>\<open>braveSearch\<close> returns the sentinel and issues
  no request, for every query and count. With a credential and an ok response that
  parses, it issues the one request and returns the parsed body as it came, so the result
  list keeps the upstream order; an empty result list is a body, not the sentinel.
\<close>

theorem braveSearch_credential:
  "(\<not> key_configured key \<longrightarrow> braveSearch key net query count = (None, []))
   \<and> (key = Some k \<and> k \<noteq> [] \<and> net (search_request k query count) = Response status (Json results)
        \<and> 200 \<le> status \<and> status \<le> 299
      \<longrightarrow> braveSearch key net query count = (Some results, [search_request k query count])
          \<and> fst (braveSearch key net query count) \<noteq> None
          \<and> map_option web_results (fst (braveSearch key net query count)) = Some (web_results results))"
  by (auto simp: braveSearch_def key_configured_def ok_def split: option.splits)

theorem braveSearch_credential_witness:
  "\<not> key_configured None \<and> braveSearch None (\<lambda>req. Response 200 (Json \<lparr>web_results = Some two_results\<rparr>)) ''x'' 3 = (None, [])
   \<and> \<not> key_configured (Some []) \<and> braveSearch (Some []) (\<lambda>req. Response 200 (Json \<lparr>web_results = Some two_results\<rparr>)) ''x'' 3 = (None, [])
   \<and> braveSearch (Some ''secret'') (\<lambda>req. Response 200 (Json \<lparr>web_results = Some two_results\<rparr>)) ''x'' 3
        = (Some \<lparr>web_results = Some two_results\<rparr>, [search_request ''secret'' ''x'' 3])
   \<and> braveSearch (Some ''secret'') (\<lambda>req. Response 200 (Json \<lparr>web_results = Some []\<rparr>)) ''x'' 3
        = (Some \<lparr>web_results = Some []\<rparr>, [search_request ''secret'' ''x'' 3])
   \<and> fst (braveSearch (Some ''secret'') (\<lambda>req. Response 200 (Json \<lparr>web_results = Some []\<rparr>)) ''x'' 3) \<noteq> None"
proof -
  have n: "\<not> key_configured None" and e: "\<not> key_configured (Some [])"
    by (simp_all add: key_configured_def)
  from n e
    braveSearch_credential [of None "\<lambda>req. Response 200 (Json \<lparr>web_results = Some two_results\<rparr>)" "''x''" 3]
    braveSearch_credential [of "Some []" "\<lambda>req. Response 200 (Json \<lparr>web_results = Some two_results\<rparr>)" "''x''" 3]
    braveSearch_credential [of "Some ''secret''" "\<lambda>req. Response 200 (Json \<lparr>web_results = Some two_results\<rparr>)" "''x''" 3 "''secret''" 200 "\<lparr>web_results = Some two_results\<rparr>"]
    braveSearch_credential [of "Some ''secret''" "\<lambda>req. Response 200 (Json \<lparr>web_results = Some []\<rparr>)" "''x''" 3 "''secret''" 200 "\<lparr>web_results = Some []\<rparr>"]
  show ?thesis by simp
qed

section \<open>Properties of the handlers\<close>

text \<open>
  C1. The activity handler chooses exactly one of four messages, in this order of
  priority: the indoor message and query when the next-hour precipitation amount of the
  first entry is above 0; else the outdoor ones when the temperature is above 15; else
  the cold-weather ones when it is below 5; else the mild ones. The windy warning is
  appended after the band message exactly when the wind speed is above 10. The five
  messages are pairwise different, and the handler prints the suggestions in that order
  between its header and the search section.
\<close>

theorem activity_bands:
  "((\<exists>a. precip_of (next_1_hours current) = Some a \<and> 0 < a)
      \<longrightarrow> weather_suggestions current
          = ([indoor_msg] @ (if 10 < wind_speed current then [windy_msg] else []),
             ''Halden Norway indoor activities museums cafes''))
   \<and> (\<not> (\<exists>a. precip_of (next_1_hours current) = Some a \<and> 0 < a) \<and> 15 < air_temperature current
      \<longrightarrow> weather_suggestions current
          = ([outdoor_msg] @ (if 10 < wind_speed current then [windy_msg] else []),
             ''Halden Norway hiking parks outdoor activities''))
   \<and> (\<not> (\<exists>a. precip_of (next_1_hours current) = Some a \<and> 0 < a)
        \<and> \<not> 15 < air_temperature current \<and> air_temperature current < 5
      \<longrightarrow> weather_suggestions current
          = ([cold_msg] @ (if 10 < wind_speed current then [windy_msg] else []),
             ''Halden Norway winter activities indoor venues''))
   \<and> (\<not> (\<exists>a. precip_of (next_1_hours current) = Some a \<and> 0 < a)
        \<and> \<not> 15 < air_temperature current \<and> \<not> air_temperature current < 5
      \<longrightarrow> weather_suggestions current
          = ([mild_msg] @ (if 10 < wind_speed current then [windy_msg] else []),
             ''Halden Norway walking trails parks cafes''))
   \<and> distinct [indoor_msg, outdoor_msg, cold_msg, mild_msg, windy_msg]
   \<and> (ok status
      \<longrightarrow> suggest_activities p key net (Response status (Json (Forecast (current # rest))))
          = (Inr (join newline
                ([activity_target @ '' Activity suggestions for Halden (''
                    @ numToString p (air_temperature current) @ degC @ '', ''
                    @ numToString p (wind_speed current) @ '' m/s wind):'', []]
                 @ fst (weather_suggestions current)
                 @ [fst (activity_results key net (snd (weather_suggestions current)))])),
             snd (activity_results key net (snd (weather_suggestions current)))))"
proof -
  have bands:
    "weather_suggestions current =
       (let band = (if (\<exists>a. precip_of (next_1_hours current) = Some a \<and> 0 < a)
                    then (indoor_msg, ''Halden Norway indoor activities museums cafes'')
                    else if 15 < air_temperature current
                    then (outdoor_msg, ''Halden Norway hiking parks outdoor activities'')
                    else if air_temperature current < 5
                    then (cold_msg, ''Halden Norway winter activities indoor venues'')
                    else (mild_msg, ''Halden Norway walking trails parks cafes''))
        in ([fst band] @ (if 10 < wind_speed current then [windy_msg] else []), snd band))"
    by (cases "precip_of (next_1_hours current)") (simp_all add: weather_suggestions_def Let_def)
  have out: "suggest_activities p key net (Response status (Json (Forecast (current # rest))))
          = (Inr (join newline
                ([activity_target @ '' Activity suggestions for Halden (''
                    @ numToString p (air_temperature current) @ degC @ '', ''
                    @ numToString p (wind_speed current) @ '' m/s wind):'', []]
                 @ fst (weather_suggestions current)
                 @ [fst (activity_results key net (snd (weather_suggestions current)))])),
             snd (activity_results key net (snd (weather_suggestions current))))"
    if "ok status"
    using that
    by (simp add: suggest_activities_def fetch_ok_forecast Let_def case_prod_unfold)
  from bands messages_distinct out show ?thesis
    by (simp add: Let_def)
qed


theorem activity_bands_witness:
  "(\<exists>a. precip_of (next_1_hours (sample_entry 0 12 15
        (Some \<lparr>symbol_code = None, precipitation_amount = Some (6 / 5)\<rparr>))) = Some a \<and> 0 < a)
   \<and> weather_suggestions (sample_entry 0 12 15
        (Some \<lparr>symbol_code = None, precipitation_amount = Some (6 / 5)\<rparr>))
       = ([indoor_msg, windy_msg], ''Halden Norway indoor activities museums cafes'')
   \<and> weather_suggestions (sample_entry 0 18 4 None)
       = ([outdoor_msg], ''Halden Norway hiking parks outdoor activities'')
   \<and> weather_suggestions (sample_entry 0 3 12 None)
       = ([cold_msg, windy_msg], ''Halden Norway winter activities indoor venues'')
   \<and> weather_suggestions (sample_entry 0 10 4 None)
       = ([mild_msg], ''Halden Norway walking trails parks cafes'')
   \<and> ok 200
   \<and> suggest_activities sample_platform None (\<lambda>req. NetworkError)
        (Response 200 (Json (Forecast [sample_entry 0 18 4 None])))
       = (Inr (join newline
            [activity_target @ '' Activity suggestions for Halden (''
               @ numToString sample_platform 18 @ degC @ '', ''
               @ numToString sample_platform 4 @ '' m/s wind):'',
             [], outdoor_msg, search_hint]), [])"
proof -
  let ?rainy = "sample_entry 0 12 15 (Some \<lparr>symbol_code = None, precipitation_amount = Some (6 / 5)\<rparr>)"
  let ?warm = "sample_entry 0 18 4 None"
  let ?cold = "sample_entry 0 3 12 None"
  let ?mild = "sample_entry 0 10 4 None"
  have rain: "\<exists>a. precip_of (next_1_hours ?rainy) = Some a \<and> 0 < a"
    by (rule exI [of _ "6 / 5"]) (simp add: precip_of_def sample_entry_def)
  have dry: "\<not> (\<exists>a. precip_of (next_1_hours (sample_entry t temp wind None)) = Some a \<and> 0 < a)"
    for t temp wind
    by (simp add: precip_of_def sample_entry_def)
  have k: "ok 200" by (simp add: ok_def)
  have r: "weather_suggestions ?rainy
       = ([indoor_msg, windy_msg], ''Halden Norway indoor activities museums cafes'')"
    using rain activity_bands [of ?rainy] by (simp add: sample_entry_def)
  have w: "weather_suggestions ?warm
       = ([outdoor_msg], ''Halden Norway hiking parks outdoor activities'')"
    using dry [of 0 18 4] activity_bands [of ?warm] by (simp add: sample_entry_def)
  have c: "weather_suggestions ?cold
       = ([cold_msg, windy_msg], ''Halden Norway winter activities indoor venues'')"
    using dry [of 0 3 12] activity_bands [of ?cold] by (simp add: sample_entry_def)
  have m: "weather_suggestions ?mild
       = ([mild_msg], ''Halden Norway walking trails parks cafes'')"
    using dry [of 0 10 4] activity_bands [of ?mild] by (simp add: sample_entry_def)
  have out: "suggest_activities sample_platform None (\<lambda>req. NetworkError)
        (Response 200 (Json (Forecast [?warm])))
       = (Inr (join newline
            [activity_target @ '' Activity suggestions for Halden (''
               @ numToString sample_platform 18 @ degC @ '', ''
               @ numToString sample_platform 4 @ '' m/s wind):'',
             [], outdoor_msg, search_hint]), [])"
    using k w activity_bands [of ?warm 200 sample_platform None "\<lambda>req. NetworkError" "[]"]
    by (simp add: activity_results_def key_configured_def sample_entry_def)
  from rain r w c m k out show ?thesis by blast
qed

lemma present_precipitation_pos:
  "(\<exists>a. precip_of (next_1_hours e) = Some a \<and> 0 < a) \<longleftrightarrow> 0 < present_precipitation e"
  by (simp add: present_precipitation_def split: option.splits)

lemma hourly_line_eq:
  "hourly_line p e =
     dec (getHours p (time e)) @ '':00 '' @ formatWeatherIcon (symbol_of (next_1_hours e)) @ '' ''
       @ numToString p (air_temperature e) @ degC @ '', '' @ numToString p (wind_speed e) @ '' m/s''
       @ (if 0 < present_precipitation e
          then '', '' @ numToString p (present_precipitation e) @ ''mm rain'' else [])"
  by (simp add: hourly_line_def present_precipitation_def Let_def split: option.splits)

text \<open>
  C9. On a fetched forecast the hourly handler returns, without error, its header and
  one line per entry for the first 12 entries in order: min(12, length) lines. A line
  carries the hour, the icon, the temperature and the wind, and the precipitation
  annotation exactly when the next-hour amount of the entry is above 0.
\<close>

theorem hourly_forecast_lines:
  "(ok status
      \<longrightarrow> get_hourly_forecast p (Response status (Json (Forecast ts)))
          = Inr (join newline ([hourly_header, []] @ map (hourly_line p) (take 12 ts))))
   \<and> length (map (hourly_line p) (take 12 ts)) = min 12 (length ts)
   \<and> (\<forall>i < min 12 (length ts). map (hourly_line p) (take 12 ts) ! i = hourly_line p (ts ! i))
   \<and> hourly_line p e =
       dec (getHours p (time e)) @ '':00 '' @ formatWeatherIcon (symbol_of (next_1_hours e))
         @ '' '' @ numToString p (air_temperature e) @ degC @ '', ''
         @ numToString p (wind_speed e) @ '' m/s''
         @ (if \<exists>a. precip_of (next_1_hours e) = Some a \<and> 0 < a
            then '', '' @ numToString p (present_precipitation e) @ ''mm rain'' else [])"
proof -
  have "get_hourly_forecast p (Response status (Json (Forecast ts)))
          = Inr (join newline ([hourly_header, []] @ map (hourly_line p) (take 12 ts)))"
    if "ok status"
    using that by (simp add: get_hourly_forecast_def fetch_ok_forecast)
  moreover have "length (map (hourly_line p) (take 12 ts)) = min 12 (length ts)"
    by simp
  moreover have "\<forall>i < min 12 (length ts). map (hourly_line p) (take 12 ts) ! i = hourly_line p (ts ! i)"
    by simp
  ultimately show ?thesis
    by (simp only: hourly_line_eq present_precipitation_pos) simp
qed

theorem hourly_forecast_lines_witness:
  "ok 200
   \<and> get_hourly_forecast sample_platform (Response 200 (Json (Forecast two_day_entries)))
       = Inr (join newline ([hourly_header, []] @ map (hourly_line sample_platform) (take 12 two_day_entries)))
   \<and> length (map (hourly_line sample_platform) (take 12 two_day_entries)) = 4
   \<and> length (map (hourly_line sample_platform) (take 12 (replicate 13 (sample_entry 0 2 3 None)))) = 12
   \<and> (1::nat) < min 12 (length two_day_entries)
   \<and> map (hourly_line sample_platform) (take 12 two_day_entries) ! 1
       = hourly_line sample_platform (two_day_entries ! 1)
   \<and> hourly_line sample_platform (two_day_entries ! 1)
       = ''1:00 '' @ glyph_rain @ '' 8'' @ degC @ '', 3 m/s, 0.5mm rain''
   \<and> hourly_line sample_platform (two_day_entries ! 0)
       = ''0:00 '' @ glyph_default @ '' 2'' @ degC @ '', 3 m/s''"
proof -
  have k: "ok 200" by (simp add: ok_def)
  have len: "length two_day_entries = 4" by (simp add: two_day_entries_def)
  note h = hourly_forecast_lines [of 200 sample_platform two_day_entries]
  have i: "(1::nat) < min 12 (length two_day_entries)" by (simp add: len)
  have l1: "hourly_line sample_platform (two_day_entries ! 1)
       = ''1:00 '' @ glyph_rain @ '' 8'' @ degC @ '', 3 m/s, 0.5mm rain''"
    by code_simp
  have l0: "hourly_line sample_platform (two_day_entries ! 0)
       = ''0:00 '' @ glyph_default @ '' 2'' @ degC @ '', 3 m/s''"
    by code_simp
  have l13: "length (map (hourly_line sample_platform) (take 12 (replicate 13 (sample_entry 0 2 3 None)))) = 12"
    using hourly_forecast_lines [of 200 sample_platform "replicate 13 (sample_entry 0 2 3 None)"]
    by simp
  from h k have out: "get_hourly_forecast sample_platform (Response 200 (Json (Forecast two_day_entries)))
       = Inr (join newline ([hourly_header, []] @ map (hourly_line sample_platform) (take 12 two_day_entries)))"
    by blast
  from h have l4: "length (map (hourly_line sample_platform) (take 12 two_day_entries)) = 4"
    by (simp add: len)
  from h i have nth: "map (hourly_line sample_platform) (take 12 two_day_entries) ! 1
       = hourly_line sample_platform (two_day_entries ! 1)"
    by blast
  from k out l4 l13 i nth l1 l0 show ?thesis by blast
qed

lemma double_sum_zero: "(\<And>x. x \<in> set xs \<Longrightarrow> f x = 0) \<Longrightarrow> double_sum (map f xs) = 0"
  by (induction xs rule: rev_induct) (simp_all add: double_sum_Nil double_sum_snoc double_add_zero)

lemma no_next_hour_groups:
  assumes "\<forall>x \<in> set ts. next_1_hours x = None"
  shows "\<forall>(date, data) \<in> set (groupByDay ts). conditions data = [] \<and> precipitation data = 0"
proof -
  have "present_codes (day_entries d ts) = []" for d
    using assms by (auto simp: present_codes_def day_entries_def symbol_of_def)
  moreover have "double_sum (map present_precipitation (day_entries d ts)) = 0" for d
  proof -
    have "present_precipitation x = 0" if "x \<in> set (day_entries d ts)" for x
      using that assms by (auto simp: present_precipitation_def day_entries_def precip_of_def)
    then show ?thesis by (rule double_sum_zero)
  qed
  ultimately show ?thesis
    by (auto simp: groupByDay_groups day_group_def)
qed

lemma day_line_plain:
  "conditions data = [] \<Longrightarrow> precipitation data = 0 \<Longrightarrow>
   day_line p (date, data) =
     glyph_default @ '' '' @ toLocaleDateString p date @ '': ''
       @ minToString p (Math_min (temps data)) @ degC @ '' - ''
       @ maxToString p (Math_max (temps data)) @ degC"
  by (simp add: day_line_def mostCommon_def formatWeatherIcon_def toFixed1_def fixed1_number_def)

text \<open>
  C10. On a fetched forecast with a non-empty timeseries in which no entry has the
  next-hour block, no handler fails: the current-weather and hourly handlers use the
  default glyph and print no precipitation, the three-day handler prints every day with
  the default glyph (its condition list is empty and its precipitation 0), and the
  activity handler does not choose the precipitation band.
\<close>

theorem absent_next_hour_total:
  assumes "ok status" and "ts = current # rest" and "\<forall>x \<in> set ts. next_1_hours x = None"
  shows "get_current_weather p (Response status (Json (Forecast ts)))
       = Inr (join newline
           [glyph_default @ '' Current weather in Halden (via YR.no):'',
            ''Temperature: '' @ numToString p (air_temperature current) @ degC,
            ''Wind: '' @ numToString p (wind_speed current) @ '' m/s'',
            ''Humidity: '' @ numToString p (relative_humidity current) @ ''%'',
            ''Pressure: '' @ numToString p (air_pressure_at_sea_level current) @ '' hPa''])
    \<and> get_hourly_forecast p (Response status (Json (Forecast ts)))
       = Inr (join newline ([hourly_header, []]
           @ map (\<lambda>x. dec (getHours p (time x)) @ '':00 '' @ glyph_default @ '' ''
                    @ numToString p (air_temperature x) @ degC @ '', ''
                    @ numToString p (wind_speed x) @ '' m/s'') (take 12 ts)))
    \<and> get_3day_forecast p (Response status (Json (Forecast ts)))
       = Inr (join newline ([threeday_header, []]
           @ map (\<lambda>(date, data). glyph_default @ '' '' @ toLocaleDateString p date @ '': ''
                    @ minToString p (Math_min (temps data)) @ degC @ '' - ''
                    @ maxToString p (Math_max (temps data)) @ degC) (take 3 (groupByDay ts))))
    \<and> (\<forall>(date, data) \<in> set (groupByDay ts). conditions data = [] \<and> precipitation data = 0)
    \<and> fst (weather_suggestions current)
       = [if 15 < air_temperature current then outdoor_msg
          else if air_temperature current < 5 then cold_msg else mild_msg]
         @ (if 10 < wind_speed current then [windy_msg] else [])
    \<and> indoor_msg \<notin> set (fst (weather_suggestions current))
    \<and> (\<exists>text. fst (suggest_activities p key net (Response status (Json (Forecast ts)))) = Inr text)"
proof -
  from assms have cur: "next_1_hours current = None" by simp
  have c: "get_current_weather p (Response status (Json (Forecast ts)))
       = Inr (join newline
           [glyph_default @ '' Current weather in Halden (via YR.no):'',
            ''Temperature: '' @ numToString p (air_temperature current) @ degC,
            ''Wind: '' @ numToString p (wind_speed current) @ '' m/s'',
            ''Humidity: '' @ numToString p (relative_humidity current) @ ''%'',
            ''Pressure: '' @ numToString p (air_pressure_at_sea_level current) @ '' hPa''])"
    using assms(1,2) cur
    by (simp add: get_current_weather_def fetch_ok_forecast symbol_of_def formatWeatherIcon_def)
  have "hourly_line p x = dec (getHours p (time x)) @ '':00 '' @ glyph_default @ '' ''
                    @ numToString p (air_temperature x) @ degC @ '', ''
                    @ numToString p (wind_speed x) @ '' m/s''"
    if "x \<in> set (take 12 ts)" for x
  proof -
    from that have "x \<in> set ts" by (rule in_set_takeD)
    with assms(3) have "next_1_hours x = None" by simp
    then show ?thesis
      by (simp add: hourly_line_def symbol_of_def precip_of_def formatWeatherIcon_def)
  qed
  then have h: "get_hourly_forecast p (Response status (Json (Forecast ts)))
       = Inr (join newline ([hourly_header, []]
           @ map (\<lambda>x. dec (getHours p (time x)) @ '':00 '' @ glyph_default @ '' ''
                    @ numToString p (air_temperature x) @ degC @ '', ''
                    @ numToString p (wind_speed x) @ '' m/s'') (take 12 ts)))"
    using assms(1) by (simp add: get_hourly_forecast_def fetch_ok_forecast cong: map_cong)
  note g = no_next_hour_groups [OF assms(3)]
  have "day_line p x = (\<lambda>(date, data). glyph_default @ '' '' @ toLocaleDateString p date @ '': ''
                    @ minToString p (Math_min (temps data)) @ degC @ '' - ''
                    @ maxToString p (Math_max (temps data)) @ degC) x"
    if "x \<in> set (take 3 (groupByDay ts))" for x
  proof -
    from that have "x \<in> set (groupByDay ts)" by (rule in_set_takeD)
    with g have "conditions (snd x) = []" "precipitation (snd x) = 0" by auto
    then show ?thesis
      using day_line_plain [of "snd x" p "fst x"] by (simp add: case_prod_unfold)
  qed
  then have d: "get_3day_forecast p (Response status (Json (Forecast ts)))
       = Inr (join newline ([threeday_header, []]
           @ map (\<lambda>(date, data). glyph_default @ '' '' @ toLocaleDateString p date @ '': ''
                    @ minToString p (Math_min (temps data)) @ degC @ '' - ''
                    @ maxToString p (Math_max (temps data)) @ degC) (take 3 (groupByDay ts))))"
    using assms(1) by (simp add: get_3day_forecast_def fetch_ok_forecast cong: map_cong)
  have w: "fst (weather_suggestions current)
       = [if 15 < air_temperature current then outdoor_msg
          else if air_temperature current < 5 then cold_msg else mild_msg]
         @ (if 10 < wind_speed current then [windy_msg] else [])"
    using cur by (simp add: weather_suggestions_def precip_of_def Let_def)
  have w': "indoor_msg \<notin> set (fst (weather_suggestions current))"
    unfolding w using messages_distinct by auto
  have s: "\<exists>text. fst (suggest_activities p key net (Response status (Json (Forecast ts)))) = Inr text"
    using assms(1,2)
    by (simp add: suggest_activities_def fetch_ok_forecast Let_def case_prod_unfold)
  from c h d g w w' s show ?thesis by blast
qed


theorem absent_next_hour_total_witness:
  "ok 200 \<and> bare_entries = sample_entry 0 3 12 None # [sample_entry 90000000 7 2 None]
   \<and> map next_1_hours bare_entries = [None, None]
   \<and> get_current_weather sample_platform (Response 200 (Json (Forecast bare_entries)))
       = Inr (join newline
           [glyph_default @ '' Current weather in Halden (via YR.no):'',
            ''Temperature: 3'' @ degC, ''Wind: 12 m/s'', ''Humidity: 80%'', ''Pressure: 1013 hPa''])
   \<and> get_hourly_forecast sample_platform (Response 200 (Json (Forecast bare_entries)))
       = Inr (join newline
           [hourly_header, [],
            ''0:00 '' @ glyph_default @ '' 3'' @ degC @ '', 12 m/s'',
            ''1:00 '' @ glyph_default @ '' 7'' @ degC @ '', 2 m/s''])
   \<and> get_3day_forecast sample_platform (Response 200 (Json (Forecast bare_entries)))
       = Inr (join newline
           [threeday_header, [],
            glyph_default @ '' day 0: 3'' @ degC @ '' - 3'' @ degC,
            glyph_default @ '' day 1: 7'' @ degC @ '' - 7'' @ degC])
   \<and> fst (weather_suggestions (sample_entry 0 3 12 None)) = [cold_msg, windy_msg]
   \<and> (\<exists>text. fst (suggest_activities sample_platform None (\<lambda>req. NetworkError)
         (Response 200 (Json (Forecast bare_entries)))) = Inr text)"
proof -
  have k: "ok 200" by (simp add: ok_def)
  have b: "bare_entries = sample_entry 0 3 12 None # [sample_entry 90000000 7 2 None]"
    by (simp add: bare_entries_def)
  have n: "\<forall>x \<in> set bare_entries. next_1_hours x = None"
    by (simp add: bare_entries_def sample_entry_def)
  note t = absent_next_hour_total [OF k b n, of sample_platform None "\<lambda>req. NetworkError"]
  have g: "take 3 (groupByDay bare_entries)
      = [(0, \<lparr>temps = [3], conditions = [], precipitation = 0\<rparr>),
         (1, \<lparr>temps = [7], conditions = [], precipitation = 0\<rparr>)]"
    by code_simp
  have c: "get_current_weather sample_platform (Response 200 (Json (Forecast bare_entries)))
       = Inr (join newline
           [glyph_default @ '' Current weather in Halden (via YR.no):'',
            ''Temperature: 3'' @ degC, ''Wind: 12 m/s'', ''Humidity: 80%'', ''Pressure: 1013 hPa''])"
  proof -
    have "numToString sample_platform 3 = ''3''" "numToString sample_platform 12 = ''12''"
      "numToString sample_platform 80 = ''80''" "numToString sample_platform 1013 = ''1013''"
      by code_simp+
    with t show ?thesis by (simp add: sample_entry_def)
  qed
  have h: "get_hourly_forecast sample_platform (Response 200 (Json (Forecast bare_entries)))
       = Inr (join newline
           [hourly_header, [],
            ''0:00 '' @ glyph_default @ '' 3'' @ degC @ '', 12 m/s'',
            ''1:00 '' @ glyph_default @ '' 7'' @ degC @ '', 2 m/s''])"
  proof -
    have "map (\<lambda>x. dec (getHours sample_platform (time x)) @ '':00 '' @ glyph_default @ '' ''
                    @ numToString sample_platform (air_temperature x) @ degC @ '', ''
                    @ numToString sample_platform (wind_speed x) @ '' m/s'') (take 12 bare_entries)
      = [''0:00 '' @ glyph_default @ '' 3'' @ degC @ '', 12 m/s'',
         ''1:00 '' @ glyph_default @ '' 7'' @ degC @ '', 2 m/s'']"
      by code_simp
    with t show ?thesis by simp
  qed
  have d: "get_3day_forecast sample_platform (Response 200 (Json (Forecast bare_entries)))
       = Inr (join newline
           [threeday_header, [],
            glyph_default @ '' day 0: 3'' @ degC @ '' - 3'' @ degC,
            glyph_default @ '' day 1: 7'' @ degC @ '' - 7'' @ degC])"
  proof -
    have "map (\<lambda>(date, data). glyph_default @ '' '' @ toLocaleDateString sample_platform date @ '': ''
                    @ minToString sample_platform (Math_min (temps data)) @ degC @ '' - ''
                    @ maxToString sample_platform (Math_max (temps data)) @ degC)
              [(0, \<lparr>temps = [3], conditions = [], precipitation = 0\<rparr>),
               (1, \<lparr>temps = [7], conditions = [], precipitation = 0\<rparr>)]
      = [glyph_default @ '' day 0: 3'' @ degC @ '' - 3'' @ degC,
         glyph_default @ '' day 1: 7'' @ degC @ '' - 7'' @ degC]"
      by code_simp
    with t g show ?thesis by simp
  qed
  from t have w: "fst (weather_suggestions (sample_entry 0 3 12 None)) = [cold_msg, windy_msg]"
    by (simp add: sample_entry_def)
  from t have s: "\<exists>text. fst (suggest_activities sample_platform None (\<lambda>req. NetworkError)
         (Response 200 (Json (Forecast bare_entries)))) = Inr text"
    by blast
  have n': "map next_1_hours bare_entries = [None, None]"
    by (simp add: bare_entries_def sample_entry_def)
  from k b n' c h d w s show ?thesis by blast
qed

lemma annotation_threshold: "0 < fixed1_number (toFixed1 x) \<longleftrightarrow> 1 / 20 \<le> x"
proof (cases "x < 0")
  case True
  then show ?thesis by (simp add: fixed1_number_def toFixed1_def)
next
  case False
  then have "0 < fixed1_number (toFixed1 x) \<longleftrightarrow> 0 < nat \<lfloor>x * 10 + 1 / 2\<rfloor>"
    by (simp add: fixed1_number_def toFixed1_def abs_if)
  also have "\<dots> \<longleftrightarrow> 1 \<le> \<lfloor>x * 10 + 1 / 2\<rfloor>" by auto
  also have "\<dots> \<longleftrightarrow> 1 \<le> x * 10 + 1 / 2" by (simp add: le_floor_iff)
  also have "\<dots> \<longleftrightarrow> 1 / 20 \<le> x" by auto
  finally show ?thesis .
qed

text \<open>
  C7. The three-day handler compares the total after \<^verbatim>\<open>toFixed(1)\<close>. A day whose
  only amount is 0.04 has a total above 0, and its line carries no precipitation
  annotation, while the hourly handler, which compares the amount itself, annotates the
  same entry. The annotation of a day appears exactly when its total is at least 0.05.
\<close>

theorem small_total_not_annotated:
  "map (\<lambda>(date, data). precipitation data) (groupByDay [drizzle_entry]) = [1 / 25]
   \<and> (0::rat) < 1 / 25
   \<and> get_3day_forecast p (Response 200 (Json (Forecast [drizzle_entry])))
       = Inr (join newline
           [threeday_header, [],
            glyph_default @ '' '' @ toLocaleDateString p 0 @ '': '' @ numToString p 3 @ degC
              @ '' - '' @ numToString p 3 @ degC])
   \<and> get_hourly_forecast p (Response 200 (Json (Forecast [drizzle_entry])))
       = Inr (join newline
           [hourly_header, [],
            dec (getHours p 0) @ '':00 '' @ glyph_default @ '' '' @ numToString p 3 @ degC
              @ '', '' @ numToString p 2 @ '' m/s'' @ '', '' @ numToString p (1 / 25) @ ''mm rain''])
   \<and> (0 < fixed1_number (toFixed1 x) \<longleftrightarrow> 1 / 20 \<le> x)"
proof -
  have k: "ok 200" by (simp add: ok_def)
  have g: "groupByDay [drizzle_entry] = [(0, \<lparr>temps = [3], conditions = [], precipitation = 1 / 25\<rparr>)]"
    by (simp add: groupByDay_def group_entry_def drizzle_entry_def sample_entry_def dayKey_def
        symbol_of_def precip_of_def double_add_def)
  have l: "day_line p (0, \<lparr>temps = [3], conditions = [], precipitation = 1 / 25\<rparr>)
      = glyph_default @ '' '' @ toLocaleDateString p 0 @ '': '' @ numToString p 3 @ degC
              @ '' - '' @ numToString p 3 @ degC"
    using annotation_threshold [of "1 / 25"]
    by (simp add: day_line_def mostCommon_def formatWeatherIcon_def Math_min_def Math_max_def
        minToString_def maxToString_def)
  have d: "get_3day_forecast p (Response 200 (Json (Forecast [drizzle_entry])))
       = Inr (join newline
           [threeday_header, [],
            glyph_default @ '' '' @ toLocaleDateString p 0 @ '': '' @ numToString p 3 @ degC
              @ '' - '' @ numToString p 3 @ degC])"
    using k by (simp add: get_3day_forecast_def fetch_ok_forecast g l)
  have h: "get_hourly_forecast p (Response 200 (Json (Forecast [drizzle_entry])))
       = Inr (join newline
           [hourly_header, [],
            dec (getHours p 0) @ '':00 '' @ glyph_default @ '' '' @ numToString p 3 @ degC
              @ '', '' @ numToString p 2 @ '' m/s'' @ '', '' @ numToString p (1 / 25) @ ''mm rain''])"
    using k
    by (simp add: get_hourly_forecast_def fetch_ok_forecast hourly_line_def drizzle_entry_def
        sample_entry_def symbol_of_def precip_of_def formatWeatherIcon_def)
  from g d h annotation_threshold [of x] show ?thesis by simp
qed

lemma headers_not_failure:
  "hourly_header @ newline \<noteq> forecast_failure" "threeday_header @ newline \<noteq> forecast_failure"
  by (simp_all add: hourly_header_def threeday_header_def forecast_failure_def)

text \<open>On an empty timeseries the two handlers that read entry 0 fail with a TypeError.\<close>

lemma index0_empty_timeseries:
  "ok status \<Longrightarrow>
   get_current_weather p (Response status (Json (Forecast []))) = Inl TypeError
   \<and> suggest_activities p key net (Response status (Json (Forecast []))) = (Inl TypeError, [])"
  by (simp add: get_current_weather_def suggest_activities_def fetch_ok_forecast)

text \<open>
  C6, as stated, fails: a parsed response with an empty timeseries passes the sentinel
  check; the current-weather handler then fails at entry 0 with a TypeError and the hourly
  handler returns its header alone. Neither returns its failure message.
\<close>

theorem empty_timeseries_counterexample:
  "fetchHaldenForecast (Response 200 (Json (Forecast []))) = Inr (Some (Forecast []))
   \<and> get_current_weather sample_platform (Response 200 (Json (Forecast []))) = Inl TypeError
   \<and> get_current_weather sample_platform (Response 200 (Json (Forecast [])))
       \<noteq> Inr current_weather_failure
   \<and> get_hourly_forecast sample_platform (Response 200 (Json (Forecast [])))
       = Inr (hourly_header @ newline)
   \<and> get_hourly_forecast sample_platform (Response 200 (Json (Forecast []))) \<noteq> Inr forecast_failure"
proof -
  have k: "ok 200" by (simp add: ok_def)
  show ?thesis
    using k headers_not_failure
    by (simp add: get_hourly_forecast_def get_current_weather_def fetch_ok_forecast)
qed

text \<open>
  C6, amended. A forecast that passes the sentinel check has a timeseries, which may be
  empty: \<^verbatim>\<open>fetchHaldenForecast\<close> returns a parsed response with an empty timeseries as
  data, not as the sentinel. On it the hourly and the three-day handler, which do not read
  entry 0, return their header with no lines, not their fixed failure message.
\<close>

theorem empty_timeseries_not_failure:
  "(fetchHaldenForecast r = Inr (Some data) \<longrightarrow> (\<exists>ts. data = Forecast ts))
   \<and> (ok status
      \<longrightarrow> fetchHaldenForecast (Response status (Json (Forecast []))) = Inr (Some (Forecast []))
        \<and> get_hourly_forecast p (Response status (Json (Forecast []))) = Inr (hourly_header @ newline)
        \<and> get_hourly_forecast p (Response status (Json (Forecast []))) \<noteq> Inr forecast_failure
        \<and> get_3day_forecast p (Response status (Json (Forecast []))) = Inr (threeday_header @ newline)
        \<and> get_3day_forecast p (Response status (Json (Forecast []))) \<noteq> Inr forecast_failure)"
proof -
  have a: "\<exists>ts. data = Forecast ts" if "fetchHaldenForecast r = Inr (Some data)"
    using that
    by (auto simp: fetchHaldenForecast_def fetch_try_def
        split: fetch_outcome.splits body.splits yr_json.splits if_splits)
  have b: "fetchHaldenForecast (Response status (Json (Forecast []))) = Inr (Some (Forecast []))
        \<and> get_hourly_forecast p (Response status (Json (Forecast []))) = Inr (hourly_header @ newline)
        \<and> get_hourly_forecast p (Response status (Json (Forecast []))) \<noteq> Inr forecast_failure
        \<and> get_3day_forecast p (Response status (Json (Forecast []))) = Inr (threeday_header @ newline)
        \<and> get_3day_forecast p (Response status (Json (Forecast []))) \<noteq> Inr forecast_failure"
    if "ok status"
    using that headers_not_failure
    by (simp add: get_hourly_forecast_def get_3day_forecast_def fetch_ok_forecast groupByDay_def)
  from a b show ?thesis by blast
qed

theorem empty_timeseries_not_failure_witness:
  "fetchHaldenForecast (Response 200 (Json (Forecast []))) = Inr (Some (Forecast []))
   \<and> (\<exists>ts. Forecast [] = Forecast ts)
   \<and> ok 200
   \<and> get_hourly_forecast sample_platform (Response 200 (Json (Forecast [])))
       = Inr (hourly_header @ newline)
   \<and> get_hourly_forecast sample_platform (Response 200 (Json (Forecast [])))
       \<noteq> Inr forecast_failure
   \<and> get_3day_forecast sample_platform (Response 200 (Json (Forecast [])))
       = Inr (threeday_header @ newline)
   \<and> get_3day_forecast sample_platform (Response 200 (Json (Forecast [])))
       \<noteq> Inr forecast_failure"
proof -
  have k: "ok 200" by (simp add: ok_def)
  note t = empty_timeseries_not_failure [of "Response 200 (Json (Forecast []))" "Forecast []" 200
      sample_platform]
  from t k have f: "fetchHaldenForecast (Response 200 (Json (Forecast []))) = Inr (Some (Forecast []))"
    by blast
  with t k show ?thesis by blast
qed

end
